theory Spec2Isabelle
  imports Complex_Main "HOL-Library.Word" "HOL-Library.Log_Nat"
begin

section \<open>Python and SQLite values\<close>

text \<open>
  The dashboard server (\<^verbatim>\<open>src/src/server_v2.py\<close>, \<^verbatim>\<open>src/services/database_pool.py\<close>) is
  Python over SQLite. Text is modelled as \<^typ>\<open>string\<close>; the identifiers, status words and
  column names the server handles are ASCII, and case conversion is modelled on the ASCII
  letters (which is all that SQLite's \<^verbatim>\<open>UPPER\<close>/\<^verbatim>\<open>LOWER\<close> convert). A Python \<^verbatim>\<open>bytes\<close>
  object and an SQLite BLOB are lists of 8-bit words.
\<close>

type_synonym byte = "8 word"

datatype py_error =
    ValueError
  | ZeroDivisionError
  | OverflowError
  | AttributeError
  | ValidationError
  | KeyError
  | TypeError
  | OperationalError
  | HTTPException nat string

subsection \<open>Characters\<close>

definition ord :: "char \<Rightarrow> nat" where
  "ord c = of_char c"

definition is_upper :: "char \<Rightarrow> bool" where
  "is_upper c \<longleftrightarrow> 65 \<le> ord c \<and> ord c \<le> 90"

definition is_lower :: "char \<Rightarrow> bool" where
  "is_lower c \<longleftrightarrow> 97 \<le> ord c \<and> ord c \<le> 122"

definition lower_char :: "char \<Rightarrow> char" where
  "lower_char c = (if is_upper c then char_of (ord c + 32) else c)"

definition upper_char :: "char \<Rightarrow> char" where
  "upper_char c = (if is_lower c then char_of (ord c - 32) else c)"

definition lower :: "string \<Rightarrow> string" where
  "lower s = map lower_char s"

definition upper :: "string \<Rightarrow> string" where
  "upper s = map upper_char s"

text \<open>\<^verbatim>\<open>Py_ISSPACE\<close>, the whitespace \<^verbatim>\<open>bytes.fromhex\<close> skips: tab, LF, VT, FF, CR and space.\<close>

definition py_isspace :: "char \<Rightarrow> bool" where
  "py_isspace c \<longleftrightarrow> (9 \<le> ord c \<and> ord c \<le> 13) \<or> ord c = 32"

text \<open>The ASCII characters \<^verbatim>\<open>str.strip()\<close> removes: those above and the separators 28 to 31.\<close>

definition str_isspace :: "char \<Rightarrow> bool" where
  "str_isspace c \<longleftrightarrow> py_isspace c \<or> (28 \<le> ord c \<and> ord c \<le> 31)"

definition strip :: "string \<Rightarrow> string" where
  "strip s = rev (dropWhile str_isspace (rev (dropWhile str_isspace s)))"

text \<open>\<^verbatim>\<open>s.replace('-', '')\<close>\<close>

definition remove_dashes :: "string \<Rightarrow> string" where
  "remove_dashes s = filter (\<lambda>c. c \<noteq> CHR ''-'') s"

subsection \<open>Hexadecimal\<close>

text \<open>The value of a hexadecimal digit (\<^verbatim>\<open>_PyLong_DigitValue\<close> below 16), or none.\<close>

definition digit_value :: "char \<Rightarrow> nat option" where
  "digit_value c =
     (let n = ord c in
      if 48 \<le> n \<and> n \<le> 57 then Some (n - 48)
      else if 97 \<le> n \<and> n \<le> 102 then Some (n - 87)
      else if 65 \<le> n \<and> n \<le> 70 then Some (n - 55)
      else None)"

definition is_hex :: "char \<Rightarrow> bool" where
  "is_hex c \<longleftrightarrow> digit_value c \<noteq> None"

text \<open>
  \<^verbatim>\<open>bytes.fromhex\<close>: two hexadecimal digits per byte, ASCII whitespace skipped before
  each pair, \<^verbatim>\<open>ValueError\<close> on any other character and on a digit left without its pair.
\<close>

definition mk_byte :: "nat \<Rightarrow> nat \<Rightarrow> byte" where
  "mk_byte hi lo = of_nat (16 * hi + lo)"

fun fromhex :: "string \<Rightarrow> py_error + byte list" where
  "fromhex [] = Inr []"
| "fromhex [c] =
     (if py_isspace c then Inr [] else Inl ValueError)"
| "fromhex (c # d # cs) =
     (if py_isspace c then fromhex (d # cs)
      else case digit_value c of
        None \<Rightarrow> Inl ValueError
      | Some hi \<Rightarrow>
          (case digit_value d of
             None \<Rightarrow> Inl ValueError
           | Some lo \<Rightarrow>
               (case fromhex cs of
                  Inl e \<Rightarrow> Inl e
                | Inr bs \<Rightarrow> Inr (mk_byte hi lo # bs))))"

definition hex_digit :: "nat \<Rightarrow> char" where
  "hex_digit n = (if n < 10 then char_of (48 + n) else char_of (87 + n))"

text \<open>\<^verbatim>\<open>bytes.hex()\<close>: two lowercase digits per byte.\<close>

definition hex :: "byte list \<Rightarrow> string" where
  "hex bs = concat (map (\<lambda>b. [hex_digit (unat b div 16), hex_digit (unat b mod 16)]) bs)"

text \<open>The slice \<^verbatim>\<open>s[a:b]\<close> for \<open>0 \<le> a \<le> b\<close>.\<close>

definition slice :: "'a list \<Rightarrow> nat \<Rightarrow> nat \<Rightarrow> 'a list" where
  "slice s a b = take (b - a) (drop a s)"

section \<open>Identifier codec\<close>

text \<open>
  \<^verbatim>\<open>_uuid_params\<close>: the bytes of the identifier, or none when \<^verbatim>\<open>bytes.fromhex\<close> raises
  (the \<^verbatim>\<open>except Exception\<close> branch), beside the string as it came.
\<close>

definition uuid_params :: "string \<Rightarrow> byte list option \<times> string" where
  "uuid_params uuid_str =
     (case fromhex (remove_dashes uuid_str) of
        Inr bs \<Rightarrow> (Some bs, uuid_str)
      | Inl e \<Rightarrow> (None, uuid_str))"

text \<open>The values a column of an \<^verbatim>\<open>sqlite3.Row\<close> holds (REAL is left out: no column the
  modelled queries read is a floating-point one).\<close>

datatype sqlval = SNull | SInt int | SText string | SBlob "byte list"

text \<open>The conversion \<^verbatim>\<open>dict_from_row\<close> applies to each value: a 16-byte blob becomes the
  hyphenated lowercase text, anything else is kept.\<close>

definition uuid_str_of :: "byte list \<Rightarrow> string" where
  "uuid_str_of v =
     (let hex_str = hex v in
      slice hex_str 0 8 @ ''-'' @ slice hex_str 8 12 @ ''-'' @ slice hex_str 12 16 @ ''-''
        @ slice hex_str 16 20 @ ''-'' @ slice hex_str 20 32)"

fun convert_value :: "sqlval \<Rightarrow> sqlval" where
  "convert_value (SBlob v) = (if length v = 16 then SText (uuid_str_of v) else SBlob v)"
| "convert_value v = v"

text \<open>The shape of a hyphenated identifier: hexadecimal digits grouped 8-4-4-4-12.\<close>

definition char_class :: "char \<Rightarrow> nat" where
  "char_class c = (if c = CHR ''-'' then 0 else if is_hex c then 1 else 2)"

definition hyphenated_uuid :: "string \<Rightarrow> bool" where
  "hyphenated_uuid s \<longleftrightarrow>
     map char_class s =
       replicate 8 1 @ [0] @ replicate 4 1 @ [0] @ replicate 4 1 @ [0] @ replicate 4 1 @ [0]
         @ replicate 12 1"

section \<open>Row projector\<close>

text \<open>
  An \<^verbatim>\<open>sqlite3.Row\<close> is the list of its columns, name and value, in column order; looking a
  name up gives the first column of that name. A Python \<^verbatim>\<open>dict\<close> with string keys is a
  map. The Python values met here (\<^verbatim>\<open>None\<close>, \<^verbatim>\<open>int\<close>, \<^verbatim>\<open>str\<close>, \<^verbatim>\<open>bytes\<close>) are the
  SQLite values, \<^verbatim>\<open>None\<close> being \<^const>\<open>SNull\<close>.
\<close>

type_synonym row = "(string \<times> sqlval) list"

type_synonym pydict = "string \<rightharpoonup> sqlval"

definition dict_from_row :: "row \<Rightarrow> pydict" where
  "dict_from_row row = map_of (map (\<lambda>(key, value). (key, convert_value value)) row)"

text \<open>\<^verbatim>\<open>d.get(k)\<close>: \<^verbatim>\<open>None\<close> for a missing key.\<close>

definition dict_get :: "pydict \<Rightarrow> string \<Rightarrow> sqlval" where
  "dict_get d k = (case d k of None \<Rightarrow> SNull | Some v \<Rightarrow> v)"

text \<open>Python truth value, and \<^verbatim>\<open>a or b\<close>.\<close>

fun truthy :: "sqlval \<Rightarrow> bool" where
  "truthy SNull = False"
| "truthy (SInt i) = (i \<noteq> 0)"
| "truthy (SText t) = (t \<noteq> [])"
| "truthy (SBlob b) = (b \<noteq> [])"

definition py_or :: "sqlval \<Rightarrow> sqlval \<Rightarrow> sqlval" where
  "py_or a b = (if truthy a then a else b)"

definition status_mapping :: "(string \<times> string) list" where
  "status_mapping =
     [(''IN_PROGRESS'', ''in-progress''),
      (''INPROGRESS'', ''in-progress''),
      (''DOING'', ''in-progress''),
      (''COMPLETED'', ''completed''),
      (''DONE'', ''completed''),
      (''PENDING'', ''pending''),
      (''TODO'', ''pending''),
      (''BLOCKED'', ''blocked''),
      (''CANCELLED'', ''cancelled''),
      (''DEFERRED'', ''deferred'')]"

text \<open>\<^verbatim>\<open>mapping.get(k, default)\<close>\<close>

definition get_default :: "(string \<times> 'v) list \<Rightarrow> string \<Rightarrow> 'v \<Rightarrow> 'v" where
  "get_default m k dflt = (case map_of m k of Some v \<Rightarrow> v | None \<Rightarrow> dflt)"

definition bytes_lower :: "byte list \<Rightarrow> byte list" where
  "bytes_lower b = map (\<lambda>x. if 65 \<le> unat x \<and> unat x \<le> 90 then x + 32 else x) b"

text \<open>
  \<^verbatim>\<open>_normalize_status\<close>. A falsy value is returned as it is; text goes through the table;
  an integer other than 0 has no \<^verbatim>\<open>strip\<close>; bytes are no key of the table and come back
  lowercased.
\<close>

fun normalize_status :: "sqlval \<Rightarrow> py_error + sqlval" where
  "normalize_status SNull = Inr SNull"
| "normalize_status (SText raw_status) =
     (if raw_status = [] then Inr (SText raw_status)
      else let s = upper (strip raw_status)
           in Inr (SText (get_default status_mapping s (lower raw_status))))"
| "normalize_status (SInt i) = (if i = 0 then Inr (SInt i) else Inl AttributeError)"
| "normalize_status (SBlob b) = (if b = [] then Inr (SBlob b) else Inr (SBlob (bytes_lower b)))"

text \<open>\<^verbatim>\<open>_task_from_row\<close>\<close>

definition task_from_row :: "row \<Rightarrow> py_error + pydict" where
  "task_from_row row =
     (let d = dict_from_row row;
          title = py_or (py_or (dict_get d ''title'') (dict_get d ''name'')) (SText []);
          summary = py_or (dict_get d ''summary'') (dict_get d ''description'')
      in case normalize_status (dict_get d ''status'') of
           Inl e \<Rightarrow> Inl e
         | Inr status \<Rightarrow>
             (let result = d(''title'' \<mapsto> title, ''summary'' \<mapsto> summary, ''status'' \<mapsto> status,
                             ''name'' \<mapsto> title, ''description'' \<mapsto> summary)
              in if d ''updated_at'' \<noteq> None \<and> truthy (dict_get d ''updated_at'')
                    \<and> \<not> truthy (dict_get d ''modified_at'')
                 then Inr (result(''modified_at'' \<mapsto> dict_get d ''updated_at''))
                 else Inr result))"

text \<open>
  The status words of \<^verbatim>\<open>update_task_status\<close>: the accepted list, the word the request's
  status is checked as, and the word stored for it.
\<close>

definition valid_statuses :: "string list" where
  "valid_statuses =
     [''pending'', ''in-progress'', ''in_progress'', ''completed'', ''cancelled'', ''deferred'',
      ''blocked'']"

definition normalized_status_of :: "string \<Rightarrow> string" where
  "normalized_status_of status =
     map (\<lambda>c. if c = CHR ''_'' then CHR ''-'' else c) (lower status)"

definition db_status_map :: "(string \<times> string) list" where
  "db_status_map =
     [(''pending'', ''PENDING''),
      (''in-progress'', ''IN_PROGRESS''),
      (''in_progress'', ''IN_PROGRESS''),
      (''completed'', ''COMPLETED''),
      (''cancelled'', ''CANCELLED''),
      (''deferred'', ''DEFERRED''),
      (''blocked'', ''BLOCKED'')]"

definition db_status_of :: "string \<Rightarrow> string" where
  "db_status_of status = get_default db_status_map (normalized_status_of status) (upper status)"

text \<open>
  The status table as the specification words it: the table is applied to the trimmed
  uppercase status, and any other status is returned in lowercase.
\<close>

definition spec_status_table :: "string \<Rightarrow> string" where
  "spec_status_table raw =
     (let s = upper (strip raw) in
      if s = ''IN_PROGRESS'' \<or> s = ''INPROGRESS'' \<or> s = ''DOING'' then ''in-progress''
      else if s = ''COMPLETED'' \<or> s = ''DONE'' then ''completed''
      else if s = ''PENDING'' \<or> s = ''TODO'' then ''pending''
      else if s = ''BLOCKED'' then ''blocked''
      else if s = ''CANCELLED'' then ''cancelled''
      else if s = ''DEFERRED'' then ''deferred''
      else lower raw)"

text \<open>A raw attribute that is missing, null or the empty text.\<close>

definition null_or_empty :: "row \<Rightarrow> string \<Rightarrow> bool" where
  "null_or_empty row k \<longleftrightarrow>
     (case map_of row k of None \<Rightarrow> True | Some v \<Rightarrow> v = SNull \<or> v = SText [])"

section \<open>Completion percentages\<close>

text \<open>
  The percentages are computed in Python as
  \<^verbatim>\<open>round((completed / total * 100)) if total > 0 else 0\<close>
  on integers: a true division of two \<^verbatim>\<open>int\<close>s, correctly rounded to a binary64 float, a
  float multiplication, and \<^verbatim>\<open>round\<close>, which rounds a float to the nearest integer, ties
  to even. A finite float is the rational it denotes.
\<close>

datatype pyfloat = Finite rat | PosInf | NegInf | NaN

definition round_half_even :: "rat \<Rightarrow> int" where
  "round_half_even q =
     (let f = \<lfloor>q\<rfloor>; d = q - of_int f
      in if d < 1/2 then f else if 1/2 < d then f + 1 else if even f then f else f + 1)"

text \<open>\<open>\<lfloor>log\<^sub>2 q\<rfloor>\<close> for a positive rational.\<close>

definition ilog2 :: "rat \<Rightarrow> int" where
  "ilog2 q =
     (let (a, b) = quotient_of q;
          k = int (floorlog 2 (nat a)) - int (floorlog 2 (nat b))
      in if 2 powi k \<le> q then k else k - 1)"

text \<open>
  Rounding to binary64, to nearest with ties to even: 53 significant bits, the least
  exponent that of the subnormal numbers, infinity from \<open>2\<^sup>1\<^sup>0\<^sup>2\<^sup>4\<close> on.
\<close>

definition round_double :: "rat \<Rightarrow> pyfloat" where
  "round_double q =
     (if q = 0 then Finite 0
      else let e = max (ilog2 \<bar>q\<bar> - 52) (- 1074);
               m = round_half_even (\<bar>q\<bar> / 2 powi e);
               v = of_int m * 2 powi e
           in if 2 ^ 1024 \<le> v then (if 0 < q then PosInf else NegInf)
              else Finite (sgn q * v))"

text \<open>\<^verbatim>\<open>a / b\<close> on Python integers.\<close>

definition py_truediv :: "int \<Rightarrow> int \<Rightarrow> py_error + pyfloat" where
  "py_truediv a b =
     (if b = 0 then Inl ZeroDivisionError
      else case round_double (of_int a / of_int b) of
             Finite x \<Rightarrow> Inr (Finite x)
           | _ \<Rightarrow> Inl OverflowError)"

fun fsgn :: "pyfloat \<Rightarrow> rat" where
  "fsgn (Finite a) = sgn a"
| "fsgn PosInf = 1"
| "fsgn NegInf = - 1"
| "fsgn NaN = 0"

text \<open>\<^verbatim>\<open>x * y\<close> on floats.\<close>

fun float_mul :: "pyfloat \<Rightarrow> pyfloat \<Rightarrow> pyfloat" where
  "float_mul (Finite a) (Finite b) = round_double (a * b)"
| "float_mul NaN y = NaN"
| "float_mul x NaN = NaN"
| "float_mul x y =
     (let s = fsgn x * fsgn y in if s = 0 then NaN else if 0 < s then PosInf else NegInf)"

text \<open>\<^verbatim>\<open>round(x)\<close> on a float.\<close>

fun py_round :: "pyfloat \<Rightarrow> py_error + int" where
  "py_round (Finite q) = Inr (round_half_even q)"
| "py_round NaN = Inl ValueError"
| "py_round x = Inl OverflowError"

definition completion_percentage :: "int \<Rightarrow> int \<Rightarrow> py_error + int" where
  "completion_percentage completed total_count =
     (if total_count > 0
      then (case py_truediv completed total_count of
              Inl e \<Rightarrow> Inl e
            | Inr x \<Rightarrow> py_round (float_mul x (Finite 100)))
      else Inr 0)"

section \<open>SQLite expressions and queries\<close>

text \<open>
  A table is the list of its rows in scan order, a row the list of its columns. The schema
  is not part of the sources; a row is taken to have every column a query names, and
  \<open>col\<close> reads one (null for a column the row lacks). Values are compared as stored:
  no affinity conversion between integers and text is modelled, so values of different
  storage classes are unequal, as is always the case for a blob and a text.
\<close>

definition col :: "row \<Rightarrow> string \<Rightarrow> sqlval" where
  "col r k = (case map_of r k of None \<Rightarrow> SNull | Some v \<Rightarrow> v)"

text \<open>A column of the right side of a \<^verbatim>\<open>LEFT JOIN\<close>: null when no row matched.\<close>

definition ocol :: "row option \<Rightarrow> string \<Rightarrow> sqlval" where
  "ocol r k = (case r of None \<Rightarrow> SNull | Some r' \<Rightarrow> col r' k)"

text \<open>Truth values are three-valued: \<open>None\<close> is SQL's NULL.\<close>

definition sql_eq :: "sqlval \<Rightarrow> sqlval \<Rightarrow> bool option" where
  "sql_eq a b = (if a = SNull \<or> b = SNull then None else Some (a = b))"

fun sql_or :: "bool option \<Rightarrow> bool option \<Rightarrow> bool option" where
  "sql_or (Some True) _ = Some True"
| "sql_or _ (Some True) = Some True"
| "sql_or (Some False) (Some False) = Some False"
| "sql_or _ _ = None"

fun sql_and :: "bool option \<Rightarrow> bool option \<Rightarrow> bool option" where
  "sql_and (Some False) _ = Some False"
| "sql_and _ (Some False) = Some False"
| "sql_and (Some True) (Some True) = Some True"
| "sql_and _ _ = None"

text \<open>A \<^verbatim>\<open>WHERE\<close> or \<^verbatim>\<open>ON\<close> condition keeps a row only when it is true.\<close>

definition sql_true :: "bool option \<Rightarrow> bool" where
  "sql_true c \<longleftrightarrow> c = Some True"

text \<open>\<^verbatim>\<open>x IN (SELECT ...)\<close>\<close>

definition sql_in :: "sqlval \<Rightarrow> sqlval list \<Rightarrow> bool option" where
  "sql_in x vs =
     (if vs = [] then Some False
      else if x = SNull then None
      else if x \<in> set vs then Some True
      else if SNull \<in> set vs then None
      else Some False)"

definition coalesce :: "sqlval \<Rightarrow> sqlval \<Rightarrow> sqlval" where
  "coalesce a b = (if a \<noteq> SNull then a else b)"

text \<open>The decimal numeral of an integer, for \<^verbatim>\<open>CAST(n AS TEXT)\<close>.\<close>

function decimal_nat :: "nat \<Rightarrow> string" where
  "decimal_nat n =
     (if n < 10 then [char_of (48 + n)] else decimal_nat (n div 10) @ [char_of (48 + n mod 10)])"
  by pat_completeness auto
termination
  by (relation "measure id") auto

definition decimal :: "int \<Rightarrow> string" where
  "decimal i = (if i < 0 then CHR ''-'' # decimal_nat (nat (- i)) else decimal_nat (nat i))"

text \<open>\<^verbatim>\<open>CAST(x AS TEXT)\<close>: the bytes of a blob are read as text.\<close>

fun cast_text :: "sqlval \<Rightarrow> string option" where
  "cast_text SNull = None"
| "cast_text (SInt i) = Some (decimal i)"
| "cast_text (SText s) = Some s"
| "cast_text (SBlob b) = Some (map (\<lambda>x. char_of (unat x)) b)"

definition text_fun :: "(string \<Rightarrow> string) \<Rightarrow> sqlval \<Rightarrow> sqlval" where
  "text_fun f x = (case cast_text x of None \<Rightarrow> SNull | Some s \<Rightarrow> SText (f s))"

definition sql_cast_text :: "sqlval \<Rightarrow> sqlval" where
  "sql_cast_text = text_fun (\<lambda>s. s)"

definition sql_lower :: "sqlval \<Rightarrow> sqlval" where
  "sql_lower = text_fun lower"

definition sql_upper :: "sqlval \<Rightarrow> sqlval" where
  "sql_upper = text_fun upper"

text \<open>\<^verbatim>\<open>REPLACE(x, '-', '')\<close>\<close>

definition sql_remove_dashes :: "sqlval \<Rightarrow> sqlval" where
  "sql_remove_dashes = text_fun remove_dashes"

text \<open>
  \<^verbatim>\<open>a LEFT JOIN b ON c\<close>: every row of \<open>a\<close> with each row of \<open>b\<close> the condition is true
  for, or once with no row.
\<close>

definition left_join :: "('a \<Rightarrow> row \<Rightarrow> bool option) \<Rightarrow> 'a list \<Rightarrow> row list \<Rightarrow> ('a \<times> row option) list" where
  "left_join on xs ys =
     concat (map (\<lambda>x. let ms = filter (\<lambda>y. sql_true (on x y)) ys
                      in if ms = [] then [(x, None)] else map (\<lambda>y. (x, Some y)) ms) xs)"

text \<open>
  The order of \<^verbatim>\<open>ORDER BY\<close>: null, then integers, then text, then blobs, text and
  blobs compared byte by byte.
\<close>

fun lex_less :: "nat list \<Rightarrow> nat list \<Rightarrow> bool" where
  "lex_less [] [] = False"
| "lex_less [] (y # ys) = True"
| "lex_less (x # xs) [] = False"
| "lex_less (x # xs) (y # ys) = (x < y \<or> (x = y \<and> lex_less xs ys))"

fun sql_less :: "sqlval \<Rightarrow> sqlval \<Rightarrow> bool" where
  "sql_less SNull b = (b \<noteq> SNull)"
| "sql_less (SInt i) (SInt j) = (i < j)"
| "sql_less (SInt i) b = (b \<noteq> SNull)"
| "sql_less (SText s) (SText t) = lex_less (map ord s) (map ord t)"
| "sql_less (SText s) (SBlob b) = True"
| "sql_less (SText s) b = False"
| "sql_less (SBlob a) (SBlob b) = lex_less (map unat a) (map unat b)"
| "sql_less (SBlob a) b = False"

text \<open>
  Sorting by insertion; \<open>ahead x y\<close> says that \<open>x\<close> must come first. Rows that
  compare equal keep their scan order (SQLite leaves their order open).
\<close>

fun insert_by :: "('a \<Rightarrow> 'a \<Rightarrow> bool) \<Rightarrow> 'a \<Rightarrow> 'a list \<Rightarrow> 'a list" where
  "insert_by ahead x [] = [x]"
| "insert_by ahead x (y # ys) =
     (if ahead y x then y # insert_by ahead x ys else x # y # ys)"

definition sort_by :: "('a \<Rightarrow> 'a \<Rightarrow> bool) \<Rightarrow> 'a list \<Rightarrow> 'a list" where
  "sort_by ahead xs = foldr (insert_by ahead) xs []"

text \<open>\<^verbatim>\<open>ORDER BY k1 DESC\<close> and \<^verbatim>\<open>ORDER BY k1 DESC, k2 DESC\<close> on the keys of two rows.\<close>

definition desc1 :: "('a \<Rightarrow> sqlval) \<Rightarrow> 'a \<Rightarrow> 'a \<Rightarrow> bool" where
  "desc1 k x y \<longleftrightarrow> sql_less (k y) (k x)"

definition desc2 :: "('a \<Rightarrow> sqlval) \<Rightarrow> ('a \<Rightarrow> sqlval) \<Rightarrow> 'a \<Rightarrow> 'a \<Rightarrow> bool" where
  "desc2 k1 k2 x y \<longleftrightarrow> sql_less (k1 y) (k1 x) \<or> (k1 x = k1 y \<and> sql_less (k2 y) (k2 x))"

text \<open>
  \<^verbatim>\<open>LIMIT n\<close>: no bound for a negative \<open>n\<close>. The Python binding refuses an integer that
  does not fit 64 bits.
\<close>

definition sql_limit :: "int \<Rightarrow> 'a list \<Rightarrow> py_error + 'a list" where
  "sql_limit n rows =
     (if n < - (2 ^ 63) \<or> 2 ^ 63 \<le> n then Inl OverflowError
      else if n < 0 then Inr rows
      else Inr (take (nat n) rows))"

text \<open>
  \<^verbatim>\<open>COUNT(DISTINCT x)\<close> and \<^verbatim>\<open>SUM(x)\<close> skip nulls. The summed column, a task's complexity,
  is taken to hold integers; the sum of no value is null.
\<close>

definition count_distinct :: "sqlval list \<Rightarrow> int" where
  "count_distinct vs = int (length (remdups (filter (\<lambda>v. v \<noteq> SNull) vs)))"

fun int_values :: "sqlval list \<Rightarrow> int list" where
  "int_values [] = []"
| "int_values (SInt i # vs) = i # int_values vs"
| "int_values (v # vs) = int_values vs"

definition sql_sum :: "sqlval list \<Rightarrow> sqlval" where
  "sql_sum vs =
     (if filter (\<lambda>v. v \<noteq> SNull) vs = [] then SNull else SInt (sum_list (int_values vs)))"

text \<open>A number read from a result row and used in Python arithmetic.\<close>

fun py_int :: "sqlval \<Rightarrow> py_error + int" where
  "py_int (SInt i) = Inr i"
| "py_int v = Inl TypeError"

text \<open>\<^verbatim>\<open>GROUP BY k\<close>: the groups in the order their keys first occur.\<close>

definition group_by :: "('a \<Rightarrow> sqlval) \<Rightarrow> 'a list \<Rightarrow> 'a list list" where
  "group_by k rows = map (\<lambda>v. filter (\<lambda>r. k r = v) rows) (remdups (map k rows))"

text \<open>Sequencing of computations that may raise.\<close>

definition and_then :: "'e + 'a \<Rightarrow> ('a \<Rightarrow> 'e + 'b) \<Rightarrow> 'e + 'b" where
  "and_then m f = (case m of Inl e \<Rightarrow> Inl e | Inr x \<Rightarrow> f x)"

fun map_result :: "('a \<Rightarrow> 'e + 'b) \<Rightarrow> 'a list \<Rightarrow> 'e + 'b list" where
  "map_result f [] = Inr []"
| "map_result f (x # xs) =
     (case f x of
        Inl e \<Rightarrow> Inl e
      | Inr y \<Rightarrow> (case map_result f xs of Inl e \<Rightarrow> Inl e | Inr ys \<Rightarrow> Inr (y # ys)))"

text \<open>\<^verbatim>\<open>d[k]\<close>\<close>

definition dict_item :: "pydict \<Rightarrow> string \<Rightarrow> py_error + sqlval" where
  "dict_item d k = (case d k of None \<Rightarrow> Inl KeyError | Some v \<Rightarrow> Inr v)"

section \<open>The project summary\<close>

text \<open>
  \<^verbatim>\<open>get_projects_summary\<close> runs one query, whose rows carry each project with its counts
  (a count is an integer, a sum an integer or null), and computes the percentages of each
  row in Python. The loop over the rows is modelled; the rows are its input.
\<close>

record summary_entry =
  s_id :: sqlval
  s_name :: sqlval
  s_status :: sqlval
  s_feature_count :: int
  s_task_count :: int
  s_completed_task_count :: int
  s_completed_feature_count :: int
  s_task_completion_percentage :: int
  s_complexity_completion_percentage :: int
  s_feature_completion_percentage :: int
  s_total_complexity :: int
  s_completed_complexity :: int
  s_modified_at :: sqlval
  s_created_at :: sqlval

text \<open>\<^verbatim>\<open>row[k] or 0\<close>, then used as a number.\<close>

definition or_zero :: "row \<Rightarrow> string \<Rightarrow> py_error + int" where
  "or_zero row k = py_int (py_or (col row k) (SInt 0))"

definition summary_of_row :: "row \<Rightarrow> py_error + summary_entry" where
  "summary_of_row row =
     (let project = dict_from_row row in
      and_then (or_zero row ''task_count'') (\<lambda>task_count.
      and_then (or_zero row ''completed_task_count'') (\<lambda>completed_task_count.
      and_then (or_zero row ''total_complexity'') (\<lambda>total_complexity.
      and_then (or_zero row ''completed_complexity'') (\<lambda>completed_complexity.
      and_then (or_zero row ''feature_count'') (\<lambda>feature_count.
      and_then (or_zero row ''completed_feature_count'') (\<lambda>completed_feature_count.
      and_then (completion_percentage completed_task_count task_count) (\<lambda>task_completion.
      and_then (completion_percentage completed_complexity total_complexity)
        (\<lambda>complexity_completion.
      and_then (completion_percentage completed_feature_count feature_count)
        (\<lambda>feature_completion.
      and_then (dict_item project ''id'') (\<lambda>i.
      and_then (dict_item project ''name'') (\<lambda>n.
        Inr \<lparr>s_id = i, s_name = n, s_status = dict_get project ''status'',
             s_feature_count = feature_count,
             s_task_count = task_count,
             s_completed_task_count = completed_task_count,
             s_completed_feature_count = completed_feature_count,
             s_task_completion_percentage = task_completion,
             s_complexity_completion_percentage = complexity_completion,
             s_feature_completion_percentage = feature_completion,
             s_total_complexity = total_complexity,
             s_completed_complexity = completed_complexity,
             s_modified_at = py_or (dict_get project ''modified_at'')
                                   (dict_get project ''created_at''),
             s_created_at = dict_get project ''created_at''\<rparr>))))))))))))"

definition projects_summary :: "row list \<Rightarrow> py_error + summary_entry list" where
  "projects_summary projects_rows = map_result summary_of_row projects_rows"

section \<open>The database and the connection pool\<close>

record database =
  projects :: "row list"
  features :: "row list"
  tasks :: "row list"
  dependencies :: "row list"
  sections :: "row list"

text \<open>
  The global \<^verbatim>\<open>db_pool\<close> is unset until startup; the pool opens the database file
  read-only or read-write. \<^verbatim>\<open>get_db_pool\<close> answers 503 without a pool.
\<close>

record pool =
  db :: database
  read_only :: bool

definition get_db_pool :: "pool option \<Rightarrow> py_error + pool" where
  "get_db_pool db_pool =
     (case db_pool of
        None \<Rightarrow> Inl (HTTPException 503 ''Database not initialized'')
      | Some p \<Rightarrow> Inr p)"

text \<open>
  The three-form match of an identifier column against the forms of \<^verbatim>\<open>_uuid_params\<close>:
  \<^verbatim>\<open>c = ? OR LOWER(CAST(c AS TEXT)) = LOWER(?) OR LOWER(REPLACE(CAST(c AS TEXT), '-', '')) = LOWER(?)\<close>
  with the parameters \<^verbatim>\<open>(bytes, str, nodash)\<close>.
\<close>

definition bytes_param :: "byte list option \<Rightarrow> sqlval" where
  "bytes_param b = (case b of None \<Rightarrow> SNull | Some v \<Rightarrow> SBlob v)"

definition nodash_param :: "string \<Rightarrow> sqlval" where
  "nodash_param uuid_str = (if uuid_str \<noteq> [] then SText (remove_dashes uuid_str) else SNull)"

definition match_uuid :: "sqlval \<Rightarrow> string \<Rightarrow> bool option" where
  "match_uuid c uuid =
     (let (u_bytes, u_str) = uuid_params uuid;
          u_nodash = nodash_param u_str
      in sql_or (sql_or (sql_eq c (bytes_param u_bytes))
                        (sql_eq (sql_lower (sql_cast_text c)) (sql_lower (SText u_str))))
                (sql_eq (sql_lower (sql_remove_dashes (sql_cast_text c))) (sql_lower u_nodash)))"

section \<open>The task list\<close>

text \<open>
  \<^verbatim>\<open>get_tasks\<close>. The query joins each task with its feature and with the project of
  \<^verbatim>\<open>COALESCE(t.project_id, f.project_id)\<close>; a joined row is the task, the feature and the
  project (or none). Each row becomes a \<^verbatim>\<open>TaskStatus\<close>.
\<close>

text \<open>
  The pydantic class \<^verbatim>\<open>TaskStatus\<close>: \<^verbatim>\<open>id\<close>, \<^verbatim>\<open>title\<close> and \<^verbatim>\<open>status\<close> are required strings,
  \<^verbatim>\<open>complexity\<close> an optional integer, the other fields optional strings with default
  \<^verbatim>\<open>None\<close>; keys that are no field are ignored. Building one validates the fields
  (pydantic 2): a string field takes text, and bytes that decode to text; an integer or
  \<^verbatim>\<open>None\<close> there is a validation error, as is a required field that is missing. An optional
  field takes \<^verbatim>\<open>None\<close> as well. Text being ASCII here, bytes decode when each is below 128.
  \<^verbatim>\<open>complexity\<close> takes an integer; text or bytes there are reported as a validation error
  (pydantic would first try to read them as a number, which an INTEGER column has already
  done for text that is one).
\<close>

record task_status =
  ts_id :: string
  ts_title :: string
  ts_status :: string
  ts_summary :: "string option"
  ts_name :: "string option"
  ts_description :: "string option"
  ts_priority :: "string option"
  ts_complexity :: "int option"
  ts_created_at :: "string option"
  ts_updated_at :: "string option"
  ts_modified_at :: "string option"
  ts_feature_id :: "string option"
  ts_feature_name :: "string option"
  ts_project_id :: "string option"
  ts_project_name :: "string option"

definition decode_bytes :: "byte list \<Rightarrow> py_error + string" where
  "decode_bytes b =
     (if list_all (\<lambda>x. unat x < 128) b then Inr (map (\<lambda>x. char_of (unat x)) b)
      else Inl ValidationError)"

definition str_field :: "pydict \<Rightarrow> string \<Rightarrow> py_error + string" where
  "str_field d k =
     (case d k of
        Some (SText s) \<Rightarrow> Inr s
      | Some (SBlob b) \<Rightarrow> decode_bytes b
      | _ \<Rightarrow> Inl ValidationError)"

definition opt_str_field :: "pydict \<Rightarrow> string \<Rightarrow> py_error + string option" where
  "opt_str_field d k =
     (case d k of
        None \<Rightarrow> Inr None
      | Some SNull \<Rightarrow> Inr None
      | Some (SText s) \<Rightarrow> Inr (Some s)
      | Some (SBlob b) \<Rightarrow> map_sum id Some (decode_bytes b)
      | Some (SInt i) \<Rightarrow> Inl ValidationError)"

definition opt_int_field :: "pydict \<Rightarrow> string \<Rightarrow> py_error + int option" where
  "opt_int_field d k =
     (case d k of
        None \<Rightarrow> Inr None
      | Some SNull \<Rightarrow> Inr None
      | Some (SInt i) \<Rightarrow> Inr (Some i)
      | _ \<Rightarrow> Inl ValidationError)"

text \<open>\<^verbatim>\<open>TaskStatus(**task_dict)\<close>\<close>

definition TaskStatus :: "pydict \<Rightarrow> py_error + task_status" where
  "TaskStatus d =
     and_then (str_field d ''id'') (\<lambda>i.
     and_then (str_field d ''title'') (\<lambda>ti.
     and_then (str_field d ''status'') (\<lambda>st.
     and_then (opt_str_field d ''summary'') (\<lambda>su.
     and_then (opt_str_field d ''name'') (\<lambda>na.
     and_then (opt_str_field d ''description'') (\<lambda>de.
     and_then (opt_str_field d ''priority'') (\<lambda>pr.
     and_then (opt_int_field d ''complexity'') (\<lambda>co.
     and_then (opt_str_field d ''created_at'') (\<lambda>cr.
     and_then (opt_str_field d ''updated_at'') (\<lambda>up.
     and_then (opt_str_field d ''modified_at'') (\<lambda>mo.
     and_then (opt_str_field d ''feature_id'') (\<lambda>fi.
     and_then (opt_str_field d ''feature_name'') (\<lambda>fn.
     and_then (opt_str_field d ''project_id'') (\<lambda>pi.
     and_then (opt_str_field d ''project_name'') (\<lambda>pn.
       Inr \<lparr>ts_id = i, ts_title = ti, ts_status = st, ts_summary = su, ts_name = na,
            ts_description = de, ts_priority = pr, ts_complexity = co, ts_created_at = cr,
            ts_updated_at = up, ts_modified_at = mo, ts_feature_id = fi, ts_feature_name = fn,
            ts_project_id = pi, ts_project_name = pn\<rparr>)))))))))))))))"

type_synonym task_join = "(row \<times> row option) \<times> row option"

definition computed_project_id :: "row \<Rightarrow> row option \<Rightarrow> sqlval" where
  "computed_project_id t f = coalesce (col t ''project_id'') (ocol f ''project_id'')"

definition tasks_with_feature :: "database \<Rightarrow> (row \<times> row option) list" where
  "tasks_with_feature d =
     left_join (\<lambda>t f. sql_eq (col t ''feature_id'') (col f ''id'')) (tasks d) (features d)"

definition get_tasks_from :: "database \<Rightarrow> task_join list" where
  "get_tasks_from d =
     left_join (\<lambda>(t, f) p. sql_eq (computed_project_id t f) (col p ''id''))
       (tasks_with_feature d) (projects d)"

text \<open>
  The conditions appended to \<^verbatim>\<open>WHERE 1=1\<close>: one for each filter that is given and not the
  empty string (Python's \<^verbatim>\<open>if feature_id:\<close>).
\<close>

definition get_tasks_where ::
  "string option \<Rightarrow> string option \<Rightarrow> string option \<Rightarrow> task_join \<Rightarrow> bool option" where
  "get_tasks_where feature_id status priority r =
     (case r of ((t, f), p) \<Rightarrow>
        sql_and
          (sql_and
             (sql_and (Some True)
                (case feature_id of
                   Some fid \<Rightarrow> if fid \<noteq> [] then match_uuid (col t ''feature_id'') fid else Some True
                 | None \<Rightarrow> Some True))
             (case status of
                Some s \<Rightarrow> if s \<noteq> [] then sql_eq (col t ''status'') (SText s) else Some True
              | None \<Rightarrow> Some True))
          (case priority of
             Some s \<Rightarrow> if s \<noteq> [] then sql_eq (col t ''priority'') (SText s) else Some True
           | None \<Rightarrow> Some True))"

definition get_tasks_select :: "task_join \<Rightarrow> row" where
  "get_tasks_select r =
     (case r of ((t, f), p) \<Rightarrow>
        t @ [(''computed_project_id'', computed_project_id t f),
             (''project_name'', ocol p ''name''),
             (''feature_name'', ocol f ''name'')])"

definition get_tasks_query ::
  "database \<Rightarrow> string option \<Rightarrow> string option \<Rightarrow> string option \<Rightarrow> int
     \<Rightarrow> py_error + task_join list" where
  "get_tasks_query d feature_id status priority limit =
     sql_limit limit
       (sort_by (desc1 (\<lambda>((t, f), p). col t ''created_at''))
          (filter (\<lambda>r. sql_true (get_tasks_where feature_id status priority r))
             (get_tasks_from d)))"

definition get_tasks_dict :: "row \<Rightarrow> py_error + pydict" where
  "get_tasks_dict task_row =
     and_then (task_from_row task_row) (\<lambda>task_dict.
       let task_dict1 =
             (case task_dict ''computed_project_id'' of
                Some v \<Rightarrow> task_dict(''project_id'' \<mapsto> v)
              | None \<Rightarrow> task_dict);
           task_dict2 =
             (case map_of task_row ''project_name'' of
                Some v \<Rightarrow> task_dict1(''project_name'' \<mapsto> v)
              | None \<Rightarrow> task_dict1);
           task_dict3 =
             (case map_of task_row ''feature_name'' of
                Some v \<Rightarrow> task_dict2(''feature_name'' \<mapsto> v)
              | None \<Rightarrow> task_dict2)
       in Inr task_dict3)"

text \<open>The \<^verbatim>\<open>limit\<close> query parameter, 1000 when the request has none.\<close>

definition limit_default :: "int option \<Rightarrow> int" where
  "limit_default limit = (case limit of None \<Rightarrow> 1000 | Some n \<Rightarrow> n)"

definition get_tasks ::
  "pool option \<Rightarrow> string option \<Rightarrow> string option \<Rightarrow> string option \<Rightarrow> int option
     \<Rightarrow> py_error + task_status list" where
  "get_tasks db_pool feature_id status priority limit =
     and_then (get_db_pool db_pool) (\<lambda>pool.
     and_then (get_tasks_query (db pool) feature_id status priority (limit_default limit))
       (\<lambda>tasks_rows.
     map_result (\<lambda>r. and_then (get_tasks_dict (get_tasks_select r)) TaskStatus) tasks_rows))"

text \<open>
  Two stored values that encode the same identifier (specification, section 3): sixteen
  bytes, or text with or without hyphens, in either letter case.
\<close>

definition identifier_text :: "sqlval \<Rightarrow> string option" where
  "identifier_text v =
     (case v of
        SBlob b \<Rightarrow> if length b = 16 then Some (hex b) else None
      | SText s \<Rightarrow> Some (lower (remove_dashes s))
      | _ \<Rightarrow> None)"

definition same_identifier :: "sqlval \<Rightarrow> sqlval \<Rightarrow> bool" where
  "same_identifier a b \<longleftrightarrow>
     (case identifier_text a of
        None \<Rightarrow> False
      | Some x \<Rightarrow> identifier_text b = Some x)"

text \<open>
  The effective project of a task as the specification resolves it (sections 3 and 4.3):
  the task's project reference when it has one, otherwise the project reference of the
  feature whose identifier its feature reference encodes, in either encoding, and none
  when there is no such feature.
\<close>

definition spec_effective_project :: "database \<Rightarrow> row \<Rightarrow> sqlval" where
  "spec_effective_project d t =
     (if col t ''project_id'' = SNull
      then (case find (\<lambda>f. same_identifier (col t ''feature_id'') (col f ''id'')) (features d) of
              None \<Rightarrow> SNull
            | Some f \<Rightarrow> col f ''project_id'')
      else col t ''project_id'')"

section \<open>The project overview\<close>

text \<open>
  \<^verbatim>\<open>get_project_overview\<close>. The date filter
  \<^verbatim>\<open>datetime(t.modified_at) >= datetime('now', '-{days} days')\<close> is evaluated by SQLite against
  its clock; \<open>recent days m\<close> stands for its value on the \<^verbatim>\<open>modified_at\<close> value \<open>m\<close>.
\<close>

record project_info =
  p_id :: sqlval
  p_name :: sqlval
  p_summary :: sqlval
  p_status :: sqlval
  p_created_at :: sqlval
  p_modified_at :: sqlval

record feature_info =
  f_id :: sqlval
  f_name :: sqlval
  f_status :: sqlval
  f_task_count :: sqlval
  f_completed_count :: sqlval
  f_in_progress_count :: sqlval

record task_info =
  t_id :: sqlval
  t_title :: sqlval
  t_status :: sqlval
  t_priority :: sqlval
  t_complexity :: sqlval
  t_feature_name :: sqlval
  t_modified_at :: sqlval

record overview_stats =
  feature_count :: int
  task_count :: int
  completed_count :: int
  dependency_count :: int
  section_count :: int
  total_task_count :: int
  total_completed_count :: int
  task_completion_percentage :: int
  complexity_completion_percentage :: int
  feature_completion_percentage :: int

record overview =
  ov_project :: project_info
  ov_features :: "feature_info list"
  ov_tasks :: "task_info list"
  ov_stats :: overview_stats

definition find_project :: "database \<Rightarrow> string \<Rightarrow> row option" where
  "find_project d project_id =
     (case filter (\<lambda>p. sql_true (match_uuid (col p ''id'') project_id)) (projects d) of
        [] \<Rightarrow> None
      | p # _ \<Rightarrow> Some p)"

text \<open>The features of the project: \<^verbatim>\<open>FROM features WHERE project_id = ?\<close>\<close>

definition project_features :: "database \<Rightarrow> sqlval \<Rightarrow> row list" where
  "project_features d pid =
     filter (\<lambda>f. sql_true (sql_eq (col f ''project_id'') pid)) (features d)"

text \<open>
  The tasks of the project:
  \<^verbatim>\<open>FROM tasks t LEFT JOIN features f ON t.feature_id = f.id WHERE t.project_id = ? OR f.project_id = ?\<close>
\<close>

definition project_tasks :: "database \<Rightarrow> sqlval \<Rightarrow> (row \<times> row option) list" where
  "project_tasks d pid =
     filter (\<lambda>(t, f). sql_true (sql_or (sql_eq (col t ''project_id'') pid)
                                         (sql_eq (ocol f ''project_id'') pid)))
       (tasks_with_feature d)"

definition status_completed :: "sqlval \<Rightarrow> bool" where
  "status_completed s \<longleftrightarrow> sql_true (sql_eq (sql_upper s) (SText ''COMPLETED''))"

text \<open>
  The features with their task counts, one group for each feature id. The columns of a
  group's feature are read from its first row (SQLite takes them from some row of the
  group; with unique feature ids every row of a group carries the same feature).
\<close>

definition group_feature :: "(row \<times> row option) list \<Rightarrow> row" where
  "group_feature g = (case g of [] \<Rightarrow> [] | (f, t) # _ \<Rightarrow> f)"

definition overview_features_rows :: "database \<Rightarrow> sqlval \<Rightarrow> row list" where
  "overview_features_rows d pid =
     (let joined = left_join (\<lambda>f t. sql_eq (col t ''feature_id'') (col f ''id''))
                     (features d) (tasks d);
          kept = filter (\<lambda>(f, t). sql_true (sql_eq (col f ''project_id'') pid)) joined;
          groups = group_by (\<lambda>(f, t). col f ''id'') kept;
          ordered = sort_by (desc2 (\<lambda>g. col (group_feature g) ''modified_at'')
                                   (\<lambda>g. col (group_feature g) ''created_at'')) groups
      in map (\<lambda>g. group_feature g @
                [(''task_count'', SInt (count_distinct (map (\<lambda>(f, t). ocol t ''id'') g))),
                 (''completed_count'',
                    SInt (int (length (filter
                      (\<lambda>(f, t). sql_true (sql_eq (ocol t ''status'') (SText ''COMPLETED''))) g)))),
                 (''in_progress_count'',
                    SInt (int (length (filter
                      (\<lambda>(f, t). sql_true (sql_eq (ocol t ''status'') (SText ''IN_PROGRESS''))) g))))])
           ordered)"

definition overview_feature :: "row \<Rightarrow> py_error + feature_info" where
  "overview_feature frow =
     (let feature = dict_from_row frow in
      and_then (dict_item feature ''id'') (\<lambda>i.
      and_then (dict_item feature ''name'') (\<lambda>n.
        Inr \<lparr>f_id = i, f_name = n, f_status = dict_get feature ''status'',
             f_task_count = py_or (col frow ''task_count'') (SInt 0),
             f_completed_count = py_or (col frow ''completed_count'') (SInt 0),
             f_in_progress_count = py_or (col frow ''in_progress_count'') (SInt 0)\<rparr>)))"

text \<open>
  The displayed tasks: those of the project, within the window when \<^verbatim>\<open>days\<close> is given,
  the 50 most recently modified.
\<close>

definition overview_tasks_where ::
  "(int \<Rightarrow> sqlval \<Rightarrow> bool option) \<Rightarrow> database \<Rightarrow> sqlval \<Rightarrow> int option
     \<Rightarrow> row \<times> row option \<Rightarrow> bool option" where
  "overview_tasks_where recent d pid days r =
     (case r of (t, f) \<Rightarrow>
        let in_project =
              sql_or (sql_eq (col t ''project_id'') pid)
                     (sql_in (col t ''feature_id'')
                        (map (\<lambda>f. col f ''id'') (project_features d pid)))
        in case days of
             None \<Rightarrow> in_project
           | Some n \<Rightarrow> sql_and in_project (recent n (col t ''modified_at'')))"

definition overview_tasks_rows ::
  "(int \<Rightarrow> sqlval \<Rightarrow> bool option) \<Rightarrow> database \<Rightarrow> sqlval \<Rightarrow> int option \<Rightarrow> row list" where
  "overview_tasks_rows recent d pid days =
     map (\<lambda>(t, f). t @ [(''feature_name'', ocol f ''name'')])
       (take 50
          (sort_by (desc2 (\<lambda>(t, f). col t ''modified_at'') (\<lambda>(t, f). col t ''created_at''))
             (filter (\<lambda>r. sql_true (overview_tasks_where recent d pid days r))
                (tasks_with_feature d))))"

definition overview_task :: "row \<Rightarrow> py_error + task_info" where
  "overview_task trow =
     and_then (task_from_row trow) (\<lambda>task.
     and_then (dict_item task ''id'') (\<lambda>i.
     and_then (dict_item task ''title'') (\<lambda>ti.
     and_then (dict_item task ''status'') (\<lambda>st.
       Inr \<lparr>t_id = i, t_title = ti, t_status = st,
            t_priority = dict_get task ''priority'',
            t_complexity = dict_get task ''complexity'',
            t_feature_name = dict_get (dict_from_row trow) ''feature_name'',
            t_modified_at = py_or (dict_get task ''modified_at'') (dict_get task ''updated_at'')\<rparr>))))"

definition overview_dep_count :: "database \<Rightarrow> sqlval \<Rightarrow> int" where
  "overview_dep_count d pid =
     int (length (filter
       (\<lambda>dep. sql_true (sql_in (col dep ''from_task_id'')
                          (map (\<lambda>(t, f). col t ''id'') (project_tasks d pid))))
       (dependencies d)))"

definition overview_section_count :: "database \<Rightarrow> sqlval \<Rightarrow> int" where
  "overview_section_count d pid =
     int (length (filter
       (\<lambda>s. sql_true
          (sql_or
             (sql_or
                (sql_and (sql_eq (col s ''entity_type'') (SText ''PROJECT''))
                         (sql_eq (col s ''entity_id'') pid))
                (sql_and (sql_eq (col s ''entity_type'') (SText ''FEATURE''))
                         (sql_in (col s ''entity_id'')
                            (map (\<lambda>f. col f ''id'') (project_features d pid)))))
             (sql_and (sql_eq (col s ''entity_type'') (SText ''TASK''))
                      (sql_in (col s ''entity_id'')
                         (map (\<lambda>(t, f). col t ''id'') (project_tasks d pid))))))
       (sections d)))"

text \<open>The unfiltered totals the percentages are computed from.\<close>

definition overview_total_task_count :: "database \<Rightarrow> sqlval \<Rightarrow> int" where
  "overview_total_task_count d pid = int (length (project_tasks d pid))"

definition overview_total_completed_count :: "database \<Rightarrow> sqlval \<Rightarrow> int" where
  "overview_total_completed_count d pid =
     int (length (filter (\<lambda>(t, f). status_completed (col t ''status'')) (project_tasks d pid)))"

definition overview_total_complexity :: "database \<Rightarrow> sqlval \<Rightarrow> sqlval" where
  "overview_total_complexity d pid =
     coalesce (sql_sum (map (\<lambda>(t, f). col t ''complexity'') (project_tasks d pid))) (SInt 0)"

definition overview_completed_complexity :: "database \<Rightarrow> sqlval \<Rightarrow> sqlval" where
  "overview_completed_complexity d pid =
     coalesce (sql_sum (map (\<lambda>(t, f). col t ''complexity'')
                 (filter (\<lambda>(t, f). status_completed (col t ''status'')) (project_tasks d pid))))
       (SInt 0)"

definition overview_total_features :: "database \<Rightarrow> sqlval \<Rightarrow> int" where
  "overview_total_features d pid = int (length (project_features d pid))"

definition overview_completed_features :: "database \<Rightarrow> sqlval \<Rightarrow> int" where
  "overview_completed_features d pid =
     int (length (filter (\<lambda>f. status_completed (col f ''status'')) (project_features d pid)))"

definition get_project_overview ::
  "(int \<Rightarrow> sqlval \<Rightarrow> bool option) \<Rightarrow> pool option \<Rightarrow> string \<Rightarrow> int option
     \<Rightarrow> py_error + overview" where
  "get_project_overview recent db_pool project_id days =
     and_then (get_db_pool db_pool) (\<lambda>pool.
       let d = db pool in
       case find_project d project_id of
         None \<Rightarrow> Inl (HTTPException 404 ''Project not found'')
       | Some project_row \<Rightarrow>
           let project = dict_from_row project_row;
               project_id_bytes = bytes_param (fst (uuid_params project_id))
           in
           and_then (map_result overview_feature (overview_features_rows d project_id_bytes))
             (\<lambda>features.
           and_then (map_result overview_task
                       (overview_tasks_rows recent d project_id_bytes days))
             (\<lambda>tasks.
           let dep_count = overview_dep_count d project_id_bytes;
               section_count = overview_section_count d project_id_bytes;
               completed_count =
                 int (length (filter (\<lambda>t. t_status t = SText ''completed'') tasks));
               total_task_count = overview_total_task_count d project_id_bytes;
               total_completed_count = overview_total_completed_count d project_id_bytes
           in
           and_then (py_int (overview_total_complexity d project_id_bytes))
             (\<lambda>total_complexity.
           and_then (py_int (overview_completed_complexity d project_id_bytes))
             (\<lambda>completed_complexity.
           let total_features = overview_total_features d project_id_bytes;
               completed_features = overview_completed_features d project_id_bytes
           in
           and_then (completion_percentage total_completed_count total_task_count)
             (\<lambda>task_completion.
           and_then (completion_percentage completed_complexity total_complexity)
             (\<lambda>complexity_completion.
           and_then (completion_percentage completed_features total_features)
             (\<lambda>feature_completion.
           and_then (dict_item project ''id'') (\<lambda>pid.
           and_then (dict_item project ''name'') (\<lambda>pname.
             Inr \<lparr>ov_project =
                    \<lparr>p_id = pid, p_name = pname,
                     p_summary = dict_get project ''summary'',
                     p_status = dict_get project ''status'',
                     p_created_at = dict_get project ''created_at'',
                     p_modified_at = dict_get project ''modified_at''\<rparr>,
                  ov_features = features,
                  ov_tasks = tasks,
                  ov_stats =
                    \<lparr>feature_count = int (length features),
                     task_count = int (length tasks),
                     completed_count = completed_count,
                     dependency_count = dep_count,
                     section_count = section_count,
                     total_task_count = total_task_count,
                     total_completed_count = total_completed_count,
                     task_completion_percentage = task_completion,
                     complexity_completion_percentage = complexity_completion,
                     feature_completion_percentage = feature_completion\<rparr>\<rparr>))))))))))"

text \<open>
  The features and the tasks of a project as the specification resolves them (sections 4.3
  and 4.4): a feature whose project reference is the project's identifier in any
  encoding, and a task that refers to the project directly or to one of those features.
\<close>

definition spec_project_features :: "database \<Rightarrow> string \<Rightarrow> row list" where
  "spec_project_features d project_id =
     filter (\<lambda>f. sql_true (match_uuid (col f ''project_id'') project_id)) (features d)"

definition spec_project_tasks :: "database \<Rightarrow> string \<Rightarrow> row list" where
  "spec_project_tasks d project_id =
     filter (\<lambda>t. sql_true (match_uuid (col t ''project_id'') project_id) \<or>
                  list_ex (\<lambda>f. same_identifier (col t ''feature_id'') (col f ''id''))
                    (spec_project_features d project_id))
       (tasks d)"

text \<open>The three percentages of an overview.\<close>

definition percentages :: "overview \<Rightarrow> int \<times> int \<times> int" where
  "percentages r =
     (task_completion_percentage (ov_stats r), complexity_completion_percentage (ov_stats r),
      feature_completion_percentage (ov_stats r))"

section \<open>Updating a task's status\<close>

text \<open>
  The server: the pool, whether the push channel is enabled, and the events broadcast so
  far. \<^verbatim>\<open>update_task_status\<close> returns its answer (or the exception raised) and the server
  after the request; \<open>now\<close> is the timestamp \<^verbatim>\<open>datetime.now().isoformat()\<close> gives.
\<close>

record server =
  db_pool :: "pool option"
  enable_websocket :: bool
  broadcasts :: "(string \<times> string) list list"

record status_response =
  success :: bool
  task :: task_status
  message :: string

definition find_task :: "database \<Rightarrow> string \<Rightarrow> row option" where
  "find_task d task_id =
     (case filter (\<lambda>t. sql_true (match_uuid (col t ''id'') task_id)) (tasks d) of
        [] \<Rightarrow> None
      | t # _ \<Rightarrow> Some t)"

text \<open>\<^verbatim>\<open>SET k = v\<close> on one row.\<close>

definition set_col :: "string \<Rightarrow> sqlval \<Rightarrow> row \<Rightarrow> row" where
  "set_col k v r = map (\<lambda>(k', v'). if k' = k then (k', v) else (k', v')) r"

definition update_status_sql :: "database \<Rightarrow> string \<Rightarrow> string \<Rightarrow> sqlval \<Rightarrow> database" where
  "update_status_sql d db_status now task_id_value =
     d\<lparr>tasks :=
        map (\<lambda>t. if sql_true (sql_eq (col t ''id'') task_id_value)
                  then set_col ''modified_at'' (SText now) (set_col ''status'' (SText db_status) t)
                  else t)
            (tasks d)\<rparr>"

definition update_task_status ::
  "server \<Rightarrow> string \<Rightarrow> string \<Rightarrow> string \<Rightarrow> (py_error + status_response) \<times> server" where
  "update_task_status srv now task_id status =
     (case get_db_pool (db_pool srv) of
        Inl e \<Rightarrow> (Inl e, srv)
      | Inr pool \<Rightarrow>
          let normalized_status = normalized_status_of status in
          if normalized_status \<notin> set valid_statuses
          then (Inl (HTTPException 400
                  ''Invalid status. Must be one of: pending, in-progress, in_progress, completed, cancelled, deferred, blocked''),
                srv)
          else
            let db_status = db_status_of status in
            (case find_task (db pool) task_id of
               None \<Rightarrow> (Inl (HTTPException 404 ''Task not found''), srv)
             | Some task_row \<Rightarrow>
                 if read_only pool then (Inl OperationalError, srv)
                 else
                   let d' = update_status_sql (db pool) db_status now (col task_row ''id'');
                       srv' = srv\<lparr>db_pool := Some (pool\<lparr>db := d'\<rparr>)\<rparr>
                   in (case find_task d' task_id of
                         None \<Rightarrow>
                           (Inl (HTTPException 500 ''Failed to retrieve updated task''), srv')
                       | Some updated_row \<Rightarrow>
                           (case task_from_row updated_row of
                              Inl e \<Rightarrow> (Inl e, srv')
                            | Inr task_dict \<Rightarrow>
                                let srv'' =
                                      (if enable_websocket srv
                                       then srv'\<lparr>broadcasts := broadcasts srv' @
                                              [[(''type'', ''task_updated''), (''task_id'', task_id),
                                                (''status'', normalized_status),
                                                (''timestamp'', now)]]\<rparr>
                                       else srv')
                                in (case TaskStatus task_dict of
                                      Inl e \<Rightarrow> (Inl e, srv'')
                                    | Inr t \<Rightarrow>
                                        (Inr \<lparr>success = True, task = t,
                                              message = ''Task status updated to ''
                                                          @ normalized_status\<rparr>,
                                         srv''))))))"

section \<open>Example databases\<close>

text \<open>
  Project \<open>P\<close> with feature \<open>F\<close>; a completed task of complexity 8 under \<open>F\<close> and a pending
  task of complexity 2 directly under \<open>P\<close> (the end-to-end scenario of the specification).
\<close>

definition example_P :: "byte list" where
  "example_P = replicate 16 0x11"

definition example_F :: "byte list" where
  "example_F = replicate 16 0x22"

definition example_db :: database where
  "example_db =
     \<lparr>projects = [[(''id'', SBlob example_P), (''name'', SText ''P'')]],
      features = [[(''id'', SBlob example_F), (''name'', SText ''F''),
                   (''project_id'', SBlob example_P), (''status'', SText ''PENDING'')]],
      tasks = [[(''id'', SText ''t1''), (''status'', SText ''COMPLETED''),
                (''complexity'', SInt 8), (''feature_id'', SBlob example_F),
                (''project_id'', SNull), (''modified_at'', SText ''2024-01-01'')],
               [(''id'', SText ''t2''), (''status'', SText ''PENDING''),
                (''complexity'', SInt 2), (''feature_id'', SNull),
                (''project_id'', SBlob example_P), (''modified_at'', SText ''2024-01-02'')]],
      dependencies = [], sections = []\<rparr>"

definition example_pool :: pool where
  "example_pool = \<lparr>db = example_db, read_only = False\<rparr>"

text \<open>
  The same project, with the project reference of the feature and of the direct task
  stored as hyphenated text instead of sixteen bytes.
\<close>

definition example_db_text :: database where
  "example_db_text =
     \<lparr>projects = [[(''id'', SBlob example_P), (''name'', SText ''P'')]],
      features = [[(''id'', SBlob example_F), (''name'', SText ''F''),
                   (''project_id'', SText ''11111111-1111-1111-1111-111111111111''),
                   (''status'', SText ''PENDING'')]],
      tasks = [[(''id'', SText ''t1''), (''status'', SText ''COMPLETED''),
                (''complexity'', SInt 8), (''feature_id'', SBlob example_F),
                (''project_id'', SNull), (''modified_at'', SText ''2024-01-01'')],
               [(''id'', SText ''t2''), (''status'', SText ''PENDING''),
                (''complexity'', SInt 2), (''feature_id'', SNull),
                (''project_id'', SText ''11111111-1111-1111-1111-111111111111''),
                (''modified_at'', SText ''2024-01-02'')]],
      dependencies = [], sections = []\<rparr>"

definition example_pool_text :: pool where
  "example_pool_text = \<lparr>db = example_db_text, read_only = False\<rparr>"

text \<open>A date filter for the examples: only the second of January is within the window.\<close>

definition example_recent :: "int \<Rightarrow> sqlval \<Rightarrow> bool option" where
  "example_recent n m = (if m = SNull then None else Some (m = SText ''2024-01-02''))"

text \<open>A database of one task, attached to the project through its feature only.\<close>

definition example_db_one :: database where
  "example_db_one =
     \<lparr>projects = [[(''id'', SBlob example_P), (''name'', SText ''P'')]],
      features = [[(''id'', SBlob example_F), (''name'', SText ''F''),
                   (''project_id'', SBlob example_P)]],
      tasks = [[(''id'', SText ''t1''), (''title'', SText ''Task''),
                (''status'', SText ''PENDING''), (''priority'', SText ''HIGH''),
                (''feature_id'', SBlob example_F), (''project_id'', SNull),
                (''created_at'', SText ''2024-01-01'')]],
      dependencies = [], sections = []\<rparr>"

definition example_pool_one :: pool where
  "example_pool_one = \<lparr>db = example_db_one, read_only = False\<rparr>"

text \<open>
  The same database with the task's feature reference stored as hyphenated text, while the
  feature's id is stored as sixteen bytes.
\<close>

definition example_db_mixed :: database where
  "example_db_mixed =
     \<lparr>projects = [[(''id'', SBlob example_P), (''name'', SText ''P'')]],
      features = [[(''id'', SBlob example_F), (''name'', SText ''F''),
                   (''project_id'', SBlob example_P)]],
      tasks = [[(''id'', SText ''t1''), (''title'', SText ''Task''),
                (''status'', SText ''PENDING''), (''priority'', SText ''HIGH''),
                (''feature_id'', SText ''22222222-2222-2222-2222-222222222222''),
                (''project_id'', SNull), (''created_at'', SText ''2024-01-01'')]],
      dependencies = [], sections = []\<rparr>"

definition example_pool_mixed :: pool where
  "example_pool_mixed = \<lparr>db = example_db_mixed, read_only = False\<rparr>"

text \<open>A row of the summary query: four tasks, three of them completed, no complexity.\<close>

definition example_summary_row :: row where
  "example_summary_row =
     [(''id'', SBlob example_P), (''name'', SText ''P''), (''feature_count'', SInt 0),
      (''task_count'', SInt 4), (''completed_task_count'', SInt 3),
      (''total_complexity'', SNull), (''completed_complexity'', SNull),
      (''completed_feature_count'', SInt 0)]"

section \<open>Properties of the identifier codec\<close>

lemma char_of_ord: "char_of (ord c) = c"
  by (simp add: ord_def)

lemma digit_value_lt16: "digit_value c = Some n \<Longrightarrow> n < 16"
  by (auto simp: digit_value_def Let_def split: if_splits)

lemma hex_digit_digit_value: "digit_value c = Some n \<Longrightarrow> hex_digit n = lower_char c"
proof -
  assume h: "digit_value c = Some n"
  consider (d) "48 \<le> ord c" "ord c \<le> 57" | (l) "97 \<le> ord c" "ord c \<le> 102" | (u) "65 \<le> ord c" "ord c \<le> 70"
    using h by (auto simp: digit_value_def Let_def split: if_splits)
  then show ?thesis
  proof cases
    case d
    then have "n = ord c - 48" using h by (auto simp: digit_value_def Let_def)
    with d have "n < 10" "48 + n = ord c" by auto
    with d show ?thesis by (simp add: hex_digit_def lower_char_def is_upper_def char_of_ord)
  next
    case l
    then have "n = ord c - 87" using h by (auto simp: digit_value_def Let_def)
    with l have "\<not> n < 10" "87 + n = ord c" by auto
    with l show ?thesis by (simp add: hex_digit_def lower_char_def is_upper_def char_of_ord)
  next
    case u
    then have "n = ord c - 55" using h by (auto simp: digit_value_def Let_def)
    with u have "87 + n = ord c + 32" "\<not> n < 10" by auto
    with u show ?thesis by (simp add: hex_digit_def lower_char_def is_upper_def)
  qed
qed

lemma is_hex_not_space: "is_hex c \<Longrightarrow> \<not> py_isspace c"
  by (auto simp: is_hex_def digit_value_def py_isspace_def Let_def split: if_splits)

lemma unat_byte: "hi < 16 \<Longrightarrow> lo < 16 \<Longrightarrow> unat (mk_byte hi lo) = 16 * hi + lo"
  by (simp add: mk_byte_def unat_of_nat del: of_nat_add of_nat_mult)

lemma hex_Cons: "hi < 16 \<Longrightarrow> lo < 16 \<Longrightarrow>
  hex (mk_byte hi lo # bs) = hex_digit hi # hex_digit lo # hex bs"
  by (simp add: hex_def unat_byte)

lemma fromhex_hex_digits:
  "list_all is_hex s \<Longrightarrow> even (length s) \<Longrightarrow>
   \<exists>bs. fromhex s = Inr bs \<and> hex bs = lower s \<and> 2 * length bs = length s"
proof (induction s rule: fromhex.induct)
  case 1
  then show ?case by (simp add: hex_def lower_def)
next
  case (2 c)
  then show ?case by simp
next
  case (3 c d cs)
  from "3.prems" obtain hi lo where hl: "digit_value c = Some hi" "digit_value d = Some lo"
    by (auto simp: is_hex_def)
  have ns: "\<not> py_isspace c" using "3.prems" by (simp add: is_hex_not_space)
  from "3.IH"(2)[OF ns hl] "3.prems" obtain bs where
    bs: "fromhex cs = Inr bs" "hex bs = lower cs" "2 * length bs = length cs" by auto
  show ?case using ns hl bs
    by (simp add: hex_Cons digit_value_lt16 hex_digit_digit_value lower_def)
qed

lemma fromhex_odd:
  "list_all is_hex s \<Longrightarrow> odd (length s) \<Longrightarrow> fromhex s = Inl ValueError"
proof (induction s rule: fromhex.induct)
  case 1
  then show ?case by simp
next
  case (2 c)
  then show ?case by (simp add: is_hex_not_space)
next
  case (3 c d cs)
  from "3.prems" obtain hi lo where hl: "digit_value c = Some hi" "digit_value d = Some lo"
    by (auto simp: is_hex_def)
  have ns: "\<not> py_isspace c" using "3.prems" by (simp add: is_hex_not_space)
  from "3.IH"(2)[OF ns hl] "3.prems" have "fromhex cs = Inl ValueError" by auto
  then show ?case using ns hl by simp
qed

lemma fromhex_bad_char:
  "c \<in> set s \<Longrightarrow> \<not> is_hex c \<Longrightarrow> \<not> py_isspace c \<Longrightarrow> fromhex s = Inl ValueError"
proof (induction s rule: fromhex.induct)
  case 1
  then show ?case by simp
next
  case (2 c)
  then show ?case by simp
next
  case (3 a d cs)
  show ?case
  proof (cases "py_isspace a")
    case True
    with "3.prems" have "c \<in> set (d # cs)" by auto
    with "3.IH"(1)[OF True] "3.prems" True show ?thesis by simp
  next
    case False
    show ?thesis
    proof (cases "digit_value a")
      case None then show ?thesis using False by simp
    next
      case (Some hi)
      note hi = this
      show ?thesis
      proof (cases "digit_value d")
        case None then show ?thesis using False hi by simp
      next
        case (Some lo)
        with hi "3.prems" have "c \<in> set cs" by (auto simp: is_hex_def)
        with "3.IH"(2)[OF False hi Some] "3.prems" have "fromhex cs = Inl ValueError" by simp
        then show ?thesis using False hi Some by simp
      qed
    qed
  qed
qed

lemma class1_hex: "char_class c = 1 \<Longrightarrow> is_hex c \<and> c \<noteq> CHR ''-''"
  by (auto simp: char_class_def split: if_splits)

lemma class0_dash: "char_class c = 0 \<Longrightarrow> c = CHR ''-''"
  by (auto simp: char_class_def split: if_splits)

lemma map_class_replicate:
  "map char_class a = replicate n 1 \<Longrightarrow>
   length a = n \<and> list_all is_hex a \<and> CHR ''-'' \<notin> set a"
proof (induction a arbitrary: n)
  case Nil
  then show ?case by simp
next
  case (Cons x a)
  then obtain m where n: "n = Suc m" by (cases n) auto
  with Cons.prems have "char_class x = 1" "map char_class a = replicate m 1" by auto
  with Cons.IH[of m] n class1_hex[of x] show ?case by auto
qed

lemma group_split:
  assumes "map char_class s = replicate n 1 @ [0] @ ys"
  obtains a r where "s = a @ CHR ''-'' # r" "length a = n" "list_all is_hex a"
           "CHR ''-'' \<notin> set a" "map char_class r = ys"
proof -
  from iffD1[OF map_eq_append_conv assms] obtain a r0 where
    ar: "s = a @ r0" "replicate n 1 = map char_class a" "[0] @ ys = map char_class r0"
    by (elim exE conjE)
  from ar(3) obtain x r where r: "r0 = x # r" "char_class x = 0" "map char_class r = ys"
    by (cases r0) simp_all
  from r(2) have x: "x = CHR ''-''" by (rule class0_dash)
  note m = map_class_replicate[OF ar(2)[symmetric]]
  show ?thesis
  proof (rule that)
    show "s = a @ CHR ''-'' # r" using ar(1) r(1) x by simp
    show "length a = n" using m by simp
    show "list_all is_hex a" using m by simp
    show "CHR ''-'' \<notin> set a" using m by simp
    show "map char_class r = ys" by (rule r(3))
  qed
qed

lemma hyphenated_uuid_decompose:
  assumes "hyphenated_uuid s"
  obtains a b c d e where "s = a @ ''-'' @ b @ ''-'' @ c @ ''-'' @ d @ ''-'' @ e"
     "length a = 8" "length b = 4" "length c = 4" "length d = 4" "length e = 12"
     "list_all is_hex (a @ b @ c @ d @ e)" "CHR ''-'' \<notin> set (a @ b @ c @ d @ e)"
proof -
  from assms have m: "map char_class s =
       replicate 8 1 @ [0] @ replicate 4 1 @ [0] @ replicate 4 1 @ [0] @ replicate 4 1 @ [0]
         @ replicate 12 1"
    unfolding hyphenated_uuid_def .
  from m obtain a r1 where
    a: "s = a @ CHR ''-'' # r1" "length a = 8" "list_all is_hex a" "CHR ''-'' \<notin> set a"
    and r1: "map char_class r1 =
       replicate 4 1 @ [0] @ replicate 4 1 @ [0] @ replicate 4 1 @ [0] @ replicate 12 1"
    by (rule group_split)
  from r1 obtain b r2 where
    b: "r1 = b @ CHR ''-'' # r2" "length b = 4" "list_all is_hex b" "CHR ''-'' \<notin> set b"
    and r2: "map char_class r2 = replicate 4 1 @ [0] @ replicate 4 1 @ [0] @ replicate 12 1"
    by (rule group_split)
  from r2 obtain c r3 where
    c: "r2 = c @ CHR ''-'' # r3" "length c = 4" "list_all is_hex c" "CHR ''-'' \<notin> set c"
    and r3: "map char_class r3 = replicate 4 1 @ [0] @ replicate 12 1"
    by (rule group_split)
  from r3 obtain d e where
    d: "r3 = d @ CHR ''-'' # e" "length d = 4" "list_all is_hex d" "CHR ''-'' \<notin> set d"
    and r4: "map char_class e = replicate 12 1"
    by (rule group_split)
  note e = map_class_replicate[OF r4]
  have s: "s = a @ ''-'' @ b @ ''-'' @ c @ ''-'' @ d @ ''-'' @ e"
    unfolding a(1) b(1) c(1) d(1) by simp
  have le: "length e = 12" using e by simp
  have hx: "list_all is_hex (a @ b @ c @ d @ e)" using a(3) b(3) c(3) d(3) e by simp
  have nd: "CHR ''-'' \<notin> set (a @ b @ c @ d @ e)" using a(4) b(4) c(4) d(4) e by simp
  show ?thesis by (rule that[OF s a(2) b(2) c(2) d(2) le hx nd])
qed

lemma filter_neq_notin: "x \<notin> set xs \<Longrightarrow> filter (\<lambda>c. c \<noteq> x) xs = xs"
  by (induction xs) auto

lemma remove_dashes_append: "remove_dashes (xs @ ys) = remove_dashes xs @ remove_dashes ys"
  by (simp add: remove_dashes_def)

lemma remove_dashes_dash: "remove_dashes (CHR ''-'' # xs) = remove_dashes xs"
  by (simp add: remove_dashes_def)

lemma remove_dashes_id: "CHR ''-'' \<notin> set xs \<Longrightarrow> remove_dashes xs = xs"
  by (simp add: remove_dashes_def filter_neq_notin)

lemma lower_append: "lower (xs @ ys) = lower xs @ lower ys"
  by (simp add: lower_def)

lemma lower_dash: "lower (CHR ''-'' # xs) = CHR ''-'' # lower xs"
proof -
  have "lower_char CHR ''-'' = CHR ''-''" by code_simp
  then show ?thesis by (simp add: lower_def)
qed

lemma uuid_str_of_groups:
  assumes "length a = 8" "length b = 4" "length c = 4" "length d = 4" "length e = 12"
    and "hex v = a @ b @ c @ d @ e"
  shows "uuid_str_of v = a @ ''-'' @ b @ ''-'' @ c @ ''-'' @ d @ ''-'' @ e"
  using assms by (simp add: uuid_str_of_def slice_def Let_def)

text \<open>
  C5. For every well-formed hyphenated identifier \<open>s\<close> (hexadecimal digits of either case
  grouped 8-4-4-4-12), decoding yields sixteen bytes, and the rendering
  \<^verbatim>\<open>dict_from_row\<close> gives of them is \<open>s\<close> in lowercase with the same grouping.
\<close>

theorem uuid_roundtrip:
  assumes "hyphenated_uuid s"
  shows "\<exists>v. fst (uuid_params s) = Some v \<and> length v = 16 \<and>
           convert_value (SBlob v) = SText (lower s)"
proof -
  from assms obtain a b c d e where
    s: "s = a @ ''-'' @ b @ ''-'' @ c @ ''-'' @ d @ ''-'' @ e"
    and len: "length a = 8" "length b = 4" "length c = 4" "length d = 4" "length e = 12"
    and hx: "list_all is_hex (a @ b @ c @ d @ e)"
    and nd: "CHR ''-'' \<notin> set (a @ b @ c @ d @ e)" by (rule hyphenated_uuid_decompose)
  have rd: "remove_dashes s = a @ b @ c @ d @ e"
    using nd unfolding s by (simp add: remove_dashes_append remove_dashes_dash remove_dashes_id)
  have ev: "even (length (a @ b @ c @ d @ e))" using len by simp
  from fromhex_hex_digits[OF hx ev] obtain v where
    v: "fromhex (a @ b @ c @ d @ e) = Inr v" "hex v = lower (a @ b @ c @ d @ e)"
       "2 * length v = length (a @ b @ c @ d @ e)" by blast
  from v(3) len have l16: "length v = 16" by simp
  have hv: "hex v = lower a @ lower b @ lower c @ lower d @ lower e"
    using v(2) by (simp add: lower_append)
  have "uuid_str_of v = lower a @ ''-'' @ lower b @ ''-'' @ lower c @ ''-'' @ lower d @ ''-'' @ lower e"
    by (rule uuid_str_of_groups[OF _ _ _ _ _ hv]) (simp_all add: lower_def len)
  also have "\<dots> = lower s"
    unfolding s by (simp add: lower_append lower_dash)
  finally have "uuid_str_of v = lower s" .
  with v(1) rd l16 show ?thesis by (simp add: uuid_params_def)
qed

theorem uuid_roundtrip_witness:
  "hyphenated_uuid ''550e8400-E29B-41d4-a716-446655440000'' \<and>
   (\<exists>v. fst (uuid_params ''550e8400-E29B-41d4-a716-446655440000'') = Some v \<and> length v = 16 \<and>
           convert_value (SBlob v) = SText ''550e8400-e29b-41d4-a716-446655440000'')"
proof -
  have h: "hyphenated_uuid ''550e8400-E29B-41d4-a716-446655440000''" by code_simp
  have l: "lower ''550e8400-E29B-41d4-a716-446655440000'' = ''550e8400-e29b-41d4-a716-446655440000''"
    by code_simp
  show ?thesis using uuid_roundtrip[OF h] h unfolding l by simp
qed

text \<open>
  C6, as stated, fails: four hexadecimal digits are not an identifier, and they decode to two
  bytes.
\<close>

theorem uuid_params_short_hex_counterexample:
  "length (remove_dashes ''abcd'') \<noteq> 32 \<and> uuid_params ''abcd'' = (Some [0xAB, 0xCD], ''abcd'')"
  by code_simp

text \<open>
  C6, amended. Decoding is total and returns the string as it came. There is no binary form
  when the string holds a character that is neither a hexadecimal digit, a hyphen nor ASCII
  whitespace, and, for a string of hexadecimal digits and hyphens, exactly when the number
  of digits is odd; an even number of digits gives half as many bytes, whatever the length.
\<close>

theorem uuid_params_failure:
  "snd (uuid_params s) = s \<and>
   ((\<exists>c\<in>set s. c \<noteq> CHR ''-'' \<and> \<not> is_hex c \<and> \<not> py_isspace c) \<longrightarrow>
      fst (uuid_params s) = None) \<and>
   (list_all is_hex (remove_dashes s) \<longrightarrow>
      (if odd (length (remove_dashes s)) then fst (uuid_params s) = None
       else \<exists>v. fst (uuid_params s) = Some v \<and> 2 * length v = length (remove_dashes s)))"
proof (intro conjI impI)
  show "snd (uuid_params s) = s"
    by (simp add: uuid_params_def split: sum.splits)
next
  assume "\<exists>c\<in>set s. c \<noteq> CHR ''-'' \<and> \<not> is_hex c \<and> \<not> py_isspace c"
  then obtain c where "c \<in> set (remove_dashes s)" "\<not> is_hex c" "\<not> py_isspace c"
    by (auto simp: remove_dashes_def)
  then have "fromhex (remove_dashes s) = Inl ValueError" by (rule fromhex_bad_char)
  then show "fst (uuid_params s) = None" by (simp add: uuid_params_def)
next
  assume hx: "list_all is_hex (remove_dashes s)"
  show "if odd (length (remove_dashes s)) then fst (uuid_params s) = None
       else \<exists>v. fst (uuid_params s) = Some v \<and> 2 * length v = length (remove_dashes s)"
  proof (cases "odd (length (remove_dashes s))")
    case True
    with fromhex_odd[OF hx] show ?thesis by (simp add: uuid_params_def)
  next
    case False
    then have "even (length (remove_dashes s))" by simp
    from fromhex_hex_digits[OF hx this] obtain v where
      "fromhex (remove_dashes s) = Inr v" "2 * length v = length (remove_dashes s)" by blast
    with False show ?thesis by (simp add: uuid_params_def)
  qed
qed

theorem uuid_params_failure_witness:
  "(\<exists>c\<in>set ''12g4''. c \<noteq> CHR ''-'' \<and> \<not> is_hex c \<and> \<not> py_isspace c) \<and>
   uuid_params ''12g4'' = (None, ''12g4'') \<and>
   list_all is_hex (remove_dashes ''a-bc'') \<and> odd (length (remove_dashes ''a-bc'')) \<and>
   uuid_params ''a-bc'' = (None, ''a-bc'')"
proof -
  have b: "\<exists>c\<in>set ''12g4''. c \<noteq> CHR ''-'' \<and> \<not> is_hex c \<and> \<not> py_isspace c"
    by code_simp
  have h: "list_all is_hex (remove_dashes ''a-bc'')" by code_simp
  have od: "odd (length (remove_dashes ''a-bc''))" by code_simp
  from uuid_params_failure[of "''12g4''"] b
  have 1: "snd (uuid_params ''12g4'') = ''12g4''" "fst (uuid_params ''12g4'') = None"
    by blast+
  from uuid_params_failure[of "''a-bc''"] h od
  have 2: "snd (uuid_params ''a-bc'') = ''a-bc''" "fst (uuid_params ''a-bc'') = None"
    by presburger+
  from 1 2 b h od show ?thesis by (simp add: prod_eq_iff)
qed

section \<open>Properties of the row projector\<close>

lemma get_default_status_mapping:
  "get_default status_mapping s d =
     (if s = ''IN_PROGRESS'' \<or> s = ''INPROGRESS'' \<or> s = ''DOING'' then ''in-progress''
      else if s = ''COMPLETED'' \<or> s = ''DONE'' then ''completed''
      else if s = ''PENDING'' \<or> s = ''TODO'' then ''pending''
      else if s = ''BLOCKED'' then ''blocked''
      else if s = ''CANCELLED'' then ''cancelled''
      else if s = ''DEFERRED'' then ''deferred''
      else d)"
  unfolding get_default_def status_mapping_def by (simp del: list.inject char.inject)

lemma normalize_status_table:
  "normalize_status (SText raw) = Inr (SText (spec_status_table raw))"
proof (cases "raw = []")
  case True
  have "spec_status_table [] = []" by code_simp
  with True show ?thesis by simp
next
  case False
  then show ?thesis
    by (simp add: spec_status_table_def Let_def get_default_status_mapping
          del: list.inject char.inject)
qed

text \<open>
  C7. Normalising a text status is the table of the specification applied to the trimmed
  uppercase status, with the lowercase status for any other. On the six status words,
  normalising the stored word gives the UI word and the mapping of
  \<^verbatim>\<open>update_task_status\<close> gives the stored word back, so the two compose to the identity
  in both directions.
\<close>

theorem status_normalization:
  "normalize_status (SText raw) = Inr (SText (spec_status_table raw)) \<and>
   normalize_status (SText ''IN_PROGRESS'') = Inr (SText ''in-progress'') \<and>
   db_status_of ''in-progress'' = ''IN_PROGRESS'' \<and>
   normalize_status (SText ''PENDING'') = Inr (SText ''pending'') \<and>
   db_status_of ''pending'' = ''PENDING'' \<and>
   normalize_status (SText ''COMPLETED'') = Inr (SText ''completed'') \<and>
   db_status_of ''completed'' = ''COMPLETED'' \<and>
   normalize_status (SText ''CANCELLED'') = Inr (SText ''cancelled'') \<and>
   db_status_of ''cancelled'' = ''CANCELLED'' \<and>
   normalize_status (SText ''DEFERRED'') = Inr (SText ''deferred'') \<and>
   db_status_of ''deferred'' = ''DEFERRED'' \<and>
   normalize_status (SText ''BLOCKED'') = Inr (SText ''blocked'') \<and>
   db_status_of ''blocked'' = ''BLOCKED''"
proof -
  have t: "normalize_status (SText raw) = Inr (SText (spec_status_table raw))"
    by (rule normalize_status_table)
  have 1: "normalize_status (SText ''IN_PROGRESS'') = Inr (SText ''in-progress'')" by code_simp
  have 2: "db_status_of ''in-progress'' = ''IN_PROGRESS''" by code_simp
  have 3: "normalize_status (SText ''PENDING'') = Inr (SText ''pending'')" by code_simp
  have 4: "db_status_of ''pending'' = ''PENDING''" by code_simp
  have 5: "normalize_status (SText ''COMPLETED'') = Inr (SText ''completed'')" by code_simp
  have 6: "db_status_of ''completed'' = ''COMPLETED''" by code_simp
  have 7: "normalize_status (SText ''CANCELLED'') = Inr (SText ''cancelled'')" by code_simp
  have 8: "db_status_of ''cancelled'' = ''CANCELLED''" by code_simp
  have 9: "normalize_status (SText ''DEFERRED'') = Inr (SText ''deferred'')" by code_simp
  have 10: "db_status_of ''deferred'' = ''DEFERRED''" by code_simp
  have 11: "normalize_status (SText ''BLOCKED'') = Inr (SText ''blocked'')" by code_simp
  have 12: "db_status_of ''blocked'' = ''BLOCKED''" by code_simp
  from t 1 2 3 4 5 6 7 8 9 10 11 12 show ?thesis by (intro conjI)
qed

theorem status_normalization_witness:
  "normalize_status (SText '' Done '') = Inr (SText ''completed'') \<and>
   normalize_status (SText ''On Hold'') = Inr (SText ''on hold'')"
proof -
  have a: "spec_status_table '' Done '' = ''completed''" by code_simp
  have b: "spec_status_table ''On Hold'' = ''on hold''" by code_simp
  from status_normalization[of "'' Done ''"] status_normalization[of "''On Hold''"]
  show ?thesis unfolding a b by blast
qed

lemma dict_from_row_lookup: "dict_from_row row k = map_option convert_value (map_of row k)"
  by (induction row) (auto simp: dict_from_row_def)

lemma null_or_empty_get:
  "null_or_empty row k \<Longrightarrow> \<not> truthy (dict_get (dict_from_row row) k)"
  by (auto simp: null_or_empty_def dict_get_def dict_from_row_lookup split: option.splits)

lemma py_or_title_not_null: "py_or a (SText []) \<noteq> SNull"
  by (cases a) (auto simp: py_or_def)

lemma normalize_status_error:
  "normalize_status v = Inl e \<Longrightarrow> \<exists>i. i \<noteq> 0 \<and> v = SInt i"
  by (cases v) (auto simp: Let_def split: if_splits)

lemma convert_value_SInt: "convert_value v = SInt i \<Longrightarrow> v = SInt i"
  by (cases v) (auto split: if_splits)

text \<open>
  C9. Projecting a raw task row fails only on a status that is a non-zero integer.
  The projected record has \<open>name = title\<close> and \<open>description = summary\<close>, its title is never
  null, and it is the empty text when the row's title and name are both null or empty.
\<close>

theorem task_from_row_aliases:
  "case task_from_row row of
     Inl e \<Rightarrow> \<exists>i. i \<noteq> 0 \<and> map_of row ''status'' = Some (SInt i)
   | Inr r \<Rightarrow>
       r ''name'' = r ''title'' \<and> r ''description'' = r ''summary'' \<and>
       r ''title'' \<noteq> None \<and> r ''title'' \<noteq> Some SNull \<and>
       (null_or_empty row ''title'' \<and> null_or_empty row ''name'' \<longrightarrow>
          r ''title'' = Some (SText []))"
proof (cases "task_from_row row")
  case (Inl e)
  then have "normalize_status (dict_get (dict_from_row row) ''status'') = Inl e"
    by (auto simp: task_from_row_def Let_def split: sum.splits if_splits)
  from normalize_status_error[OF this] obtain i where
    i: "i \<noteq> 0" "dict_get (dict_from_row row) ''status'' = SInt i" by blast
  from i(2) have "map_of row ''status'' = Some (SInt i)"
    by (auto simp: dict_get_def dict_from_row_lookup split: option.splits
          dest: convert_value_SInt)
  with i(1) Inl show ?thesis by simp
next
  case (Inr r)
  define d where "d = dict_from_row row"
  define title where "title = py_or (py_or (dict_get d ''title'') (dict_get d ''name'')) (SText [])"
  define summary where "summary = py_or (dict_get d ''summary'') (dict_get d ''description'')"
  from Inr obtain status where
    r: "r = d(''title'' \<mapsto> title, ''summary'' \<mapsto> summary, ''status'' \<mapsto> status,
              ''name'' \<mapsto> title, ''description'' \<mapsto> summary) \<or>
        r = (d(''title'' \<mapsto> title, ''summary'' \<mapsto> summary, ''status'' \<mapsto> status,
              ''name'' \<mapsto> title, ''description'' \<mapsto> summary))
              (''modified_at'' \<mapsto> dict_get d ''updated_at'')"
    unfolding task_from_row_def d_def title_def summary_def Let_def
    by (auto split: sum.splits if_splits)
  from r have f: "r ''name'' = Some title" "r ''title'' = Some title"
    "r ''description'' = Some summary" "r ''summary'' = Some summary"
    by auto
  have nn: "title \<noteq> SNull" unfolding title_def by (rule py_or_title_not_null)
  have "title = SText []" if "null_or_empty row ''title''" "null_or_empty row ''name''"
    using null_or_empty_get[OF that(1)] null_or_empty_get[OF that(2)]
    unfolding title_def d_def by (simp add: py_or_def)
  with f nn Inr show ?thesis by simp
qed

theorem task_from_row_aliases_witness:
  "null_or_empty [(''id'', SText ''t1''), (''title'', SNull), (''name'', SText []),
       (''description'', SText ''d''), (''status'', SText ''DONE'')] ''title'' \<and>
   null_or_empty [(''id'', SText ''t1''), (''title'', SNull), (''name'', SText []),
       (''description'', SText ''d''), (''status'', SText ''DONE'')] ''name'' \<and>
   (\<exists>r. task_from_row [(''id'', SText ''t1''), (''title'', SNull), (''name'', SText []),
       (''description'', SText ''d''), (''status'', SText ''DONE'')] = Inr r \<and>
      r ''title'' = Some (SText []) \<and> r ''name'' = Some (SText []) \<and>
      r ''description'' = r ''summary'')"
proof -
  let ?row = "[(''id'', SText ''t1''), (''title'', SNull), (''name'', SText []),
       (''description'', SText ''d''), (''status'', SText ''DONE'')]"
  have a: "null_or_empty ?row ''title''" by code_simp
  have b: "null_or_empty ?row ''name''" by code_simp
  have ns: "map_of ?row ''status'' = Some (SText ''DONE'')" by simp
  obtain r where r: "task_from_row ?row = Inr r"
    using task_from_row_aliases[of ?row] unfolding ns by (cases "task_from_row ?row") auto
  from task_from_row_aliases[of ?row] a b r
  have "r ''title'' = Some (SText [])" "r ''name'' = r ''title''"
    "r ''description'' = r ''summary''" by simp_all
  with a b r show ?thesis by auto
qed

section \<open>Properties of the completion percentages\<close>

lemma round_half_even_bound: "\<bar>of_int (round_half_even q) - q\<bar> \<le> 1/2"
proof -
  have "of_int \<lfloor>q\<rfloor> \<le> q" "q < of_int \<lfloor>q\<rfloor> + 1" by linarith+
  then show ?thesis
    unfolding round_half_even_def Let_def by (auto simp: abs_le_iff)
qed

lemma floorlog_rat_bounds:
  assumes "0 < (a::int)"
  shows "(2::rat) powi (int (floorlog 2 (nat a)) - 1) \<le> of_int a"
    and "of_int a < (2::rat) powi (int (floorlog 2 (nat a)))"
proof -
  let ?f = "floorlog 2 (nat a)"
  from assms have pos: "0 < nat a" by simp
  from floorlog_bounds[OF pos, of 2] have b: "2 ^ (?f - 1) \<le> nat a" "nat a < 2 ^ ?f" by auto
  have "?f \<noteq> 0" using pos by (simp add: floorlog_eq_zero_iff)
  then have f1: "1 \<le> ?f" by simp
  then have e: "int ?f - 1 = int (?f - 1)" by simp
  have "(2::rat) ^ (?f - 1) \<le> of_nat (nat a)" using b(1)
    by (metis of_nat_le_iff of_nat_numeral of_nat_power)
  then show "(2::rat) powi (int ?f - 1) \<le> of_int a" using assms unfolding e by simp
  have "(of_nat (nat a) :: rat) < 2 ^ ?f" using b(2)
    by (metis of_nat_less_iff of_nat_numeral of_nat_power)
  then show "of_int a < (2::rat) powi (int ?f)" using assms by simp
qed

lemma ilog2_bounds:
  assumes "0 < q"
  shows "2 powi (ilog2 q) \<le> q" and "q < 2 powi (ilog2 q + 1)"
proof -
  obtain a b where ab: "quotient_of q = (a, b)" by (cases "quotient_of q")
  then have b: "0 < b" and q: "q = of_int a / of_int b"
    by (auto simp: quotient_of_denom_pos quotient_of_div)
  from assms b q have a: "0 < a" by (simp add: zero_less_divide_iff)
  define fa where "fa = int (floorlog 2 (nat a))"
  define fb where "fb = int (floorlog 2 (nat b))"
  note A = floorlog_rat_bounds[OF a, folded fa_def]
  note B = floorlog_rat_bounds[OF b, folded fb_def]
  have bpos: "(0::rat) < of_int b" using b by simp
  have lo: "2 powi (fa - fb - 1) \<le> q"
  proof -
    have "(2::rat) powi (fa - fb - 1) = 2 powi (fa - 1) / 2 powi fb"
      by (simp add: power_int_diff)
    also have "\<dots> \<le> of_int a / 2 powi fb"
      using A(1) by (simp add: divide_right_mono)
    also have "\<dots> \<le> of_int a / of_int b"
      using B(2) bpos a by (simp add: frac_le)
    finally show ?thesis unfolding q .
  qed
  have hi: "q < 2 powi (fa - fb + 1)"
  proof -
    have "q = of_int a / of_int b" by (rule q)
    also have "\<dots> < 2 powi fa / of_int b"
      using A(2) bpos by (simp add: divide_strict_right_mono)
    also have "\<dots> \<le> 2 powi fa / 2 powi (fb - 1)"
      using B(1) by (simp add: frac_le)
    also have "\<dots> = 2 powi (fa - fb + 1)"
      by (simp add: power_int_diff power_int_add field_simps)
    finally show ?thesis .
  qed
  have il: "ilog2 q = (if 2 powi (fa - fb) \<le> q then fa - fb else fa - fb - 1)"
    unfolding ilog2_def ab fa_def fb_def by (simp add: Let_def)
  show "2 powi (ilog2 q) \<le> q" using lo unfolding il by auto
  show "q < 2 powi (ilog2 q + 1)" using hi unfolding il by (auto simp: not_le)
qed

text \<open>In the normal range, rounding to binary64 has relative error at most \<open>2\<^sup>-\<^sup>5\<^sup>3\<close>.\<close>

lemma round_double_rel_error:
  assumes q: "0 < q" and lo: "2 powi (- 1022) \<le> q" and hi: "q \<le> 2 ^ 1023"
  obtains v where "round_double q = Finite v" "\<bar>v - q\<bar> \<le> q / 2 ^ 53"
proof -
  define e where "e = ilog2 q - 52"
  define m where "m = round_half_even (q / 2 powi e)"
  define v :: rat where "v = of_int m * 2 powi e"
  have pe: "(0::rat) < 2 powi e" by simp
  have lt: "(2::rat) powi (- 1022) < 2 powi (ilog2 q + 1)"
    using lo ilog2_bounds(2)[OF q] by (rule le_less_trans)
  have "- 1022 < ilog2 q + 1"
  proof (rule ccontr)
    assume "\<not> - 1022 < ilog2 q + 1"
    then have "ilog2 q + 1 \<le> - 1022" by simp
    then have "(2::rat) powi (ilog2 q + 1) \<le> 2 powi (- 1022)"
      by (rule power_int_increasing) simp
    with lt show False by simp
  qed
  then have emax: "max (ilog2 \<bar>q\<bar> - 52) (- 1074) = e" using q by (simp add: e_def)
  have "\<bar>of_int m - q / 2 powi e\<bar> \<le> 1/2" unfolding m_def by (rule round_half_even_bound)
  then have "\<bar>of_int m - q / 2 powi e\<bar> * 2 powi e \<le> 1/2 * 2 powi e"
    using pe by (simp only: mult_le_cancel_right_pos)
  moreover have "\<bar>of_int m - q / 2 powi e\<bar> * 2 powi e = \<bar>v - q\<bar>"
  proof -
    have "\<bar>of_int m - q / 2 powi e\<bar> * 2 powi e = \<bar>(of_int m - q / 2 powi e) * 2 powi e\<bar>"
      using pe by (simp add: abs_mult)
    also have "(of_int m - q / 2 powi e) * 2 powi e = v - q"
      using pe by (simp add: v_def field_simps)
    finally show ?thesis .
  qed
  ultimately have err: "\<bar>v - q\<bar> \<le> 2 powi e / 2" by simp
  have "(2::rat) powi e = 2 powi (ilog2 q) / 2 ^ 52"
    unfolding e_def by (simp add: power_int_diff)
  also have "\<dots> \<le> q / 2 ^ 52" using ilog2_bounds(1)[OF q] by (simp add: divide_right_mono)
  finally have "(2::rat) powi e / 2 \<le> q / 2 ^ 52 / 2" by simp
  also have "\<dots> = q / 2 ^ 53" by simp
  finally have rel: "\<bar>v - q\<bar> \<le> q / 2 ^ 53" using err by simp
  define d where "d = q / 2 ^ 53"
  have d: "0 < d" "d < q" using q unfolding d_def by (simp_all add: field_simps)
  have rel': "\<bar>v - q\<bar> \<le> d" using rel unfolding d_def .
  have p: "(2::rat) ^ 1024 = 2 * 2 ^ 1023" by simp
  have "v < 2 * q" using rel' d by linarith
  also have "\<dots> \<le> 2 * 2 ^ 1023" using hi by (simp only: mult_le_cancel_left_pos zero_less_numeral)
  finally have "v < 2 ^ 1024" unfolding p .
  then have nov: "\<not> 2 ^ 1024 \<le> v" by (simp only: not_le)
  have "round_double q = Finite v"
    using q nov unfolding round_double_def emax Let_def v_def m_def by simp
  then show ?thesis using rel by (rule that)
qed

lemma round_double_zero: "round_double 0 = Finite 0"
  by (simp add: round_double_def)

lemma round_double_not_NaN: "round_double q \<noteq> NaN"
  by (simp add: round_double_def Let_def)

lemma completion_percentage_zero_total:
  "total_count \<le> 0 \<Longrightarrow> completion_percentage completed total_count = Inr 0"
  by (simp add: completion_percentage_def)

lemma completion_percentage_no_zero_division:
  "completion_percentage completed total_count \<noteq> Inl ZeroDivisionError"
  by (auto simp: completion_percentage_def py_truediv_def round_double_not_NaN
        split: sum.splits pyfloat.splits if_splits elim!: py_round.elims)

lemma completion_percentage_no_NaN:
  "completion_percentage completed total_count \<noteq> Inl ValueError"
  by (auto simp: completion_percentage_def py_truediv_def round_double_not_NaN
        split: sum.splits pyfloat.splits if_splits elim!: py_round.elims)

text \<open>
  For counts below \<open>2\<^sup>4\<^sup>4\<close> the two float roundings cannot move the value across a
  half: the percentage is an integer nearest to the exact \<open>100 \<sqdot> completed / total\<close>.
\<close>

lemma completion_percentage_nearest:
  assumes c: "0 \<le> completed" "completed \<le> total_count"
    and t: "0 < total_count" "total_count < 2 ^ 44"
  obtains p where "completion_percentage completed total_count = Inr p"
    "\<bar>2 * (p * total_count - 100 * completed)\<bar> \<le> total_count"
proof (cases "completed = 0")
  case True
  have "completion_percentage 0 total_count = Inr 0"
    using t by (simp add: completion_percentage_def py_truediv_def round_double_zero
        round_half_even_def)
  with True t show ?thesis by (intro that[of 0]) simp_all
next
  case False
  with c have c1: "1 \<le> completed" by simp
  define q :: rat where "q = of_int completed / of_int total_count"
  have tpos: "(0::rat) < of_int total_count" using t by simp
  have q0: "0 < q" using c1 tpos by (simp add: q_def)
  have q1: "q \<le> 1" using c tpos by (simp add: q_def)
  have tq: "q * of_int total_count = of_int completed" using tpos by (simp add: q_def)
  have tlt: "(of_int total_count :: rat) < 2 ^ 44"
    using t(2) by (metis of_int_less_iff of_int_numeral of_int_power)
  have qlo: "1 / 2 ^ 44 < q"
  proof -
    have "1 / 2 ^ 44 < 1 / (of_int total_count :: rat)"
      using tlt tpos by (simp only: frac_less2 zero_less_one order_refl)
    also have "\<dots> \<le> q" using c1 tpos unfolding q_def by (simp add: divide_right_mono)
    finally show ?thesis .
  qed
  have small: "(2::rat) powi (- 1022) \<le> 1 / 2 ^ 44"
  proof -
    have "(2::rat) powi (- 1022) \<le> 2 powi (- 44)" by (rule power_int_increasing) simp_all
    also have "\<dots> = 1 / 2 ^ 44" by (simp add: power_int_minus field_simps)
    finally show ?thesis .
  qed
  have big: "(101::rat) \<le> 2 ^ 1023"
  proof -
    have "(101::rat) \<le> 2 ^ 7" by simp
    also have "\<dots> \<le> 2 ^ 1023" by (rule power_increasing) simp_all
    finally show ?thesis .
  qed
  from small qlo have qn: "2 powi (- 1022) \<le> q" by linarith
  from q1 big have qh: "q \<le> 2 ^ 1023" by linarith
  from round_double_rel_error[OF q0 qn qh] obtain x where
    x: "round_double q = Finite x" "\<bar>x - q\<bar> \<le> q / 2 ^ 53" by blast
  define d :: rat where "d = 1 / 2 ^ 53"
  have d: "0 < d" "d \<le> 1 / 100" by (simp_all add: d_def)
  have xq: "\<bar>x - q\<bar> \<le> q * d" using x(2) by (simp add: d_def)
  define qd where "qd = q * d"
  have qd1: "qd \<le> d" unfolding qd_def using q0 q1 d(1) by (simp add: mult_left_le_one_le)
  have qd2: "qd \<le> q / 100"
  proof -
    have "0 \<le> q" using q0 by simp
    with d(2) have "q * d \<le> q * (1 / 100)" by (rule mult_left_mono)
    then show ?thesis by (simp add: qd_def)
  qed
  have xq': "\<bar>x - q\<bar> \<le> qd" using xq by (simp only: qd_def)
  have xb: "q / 2 \<le> x" "x \<le> 101 / 100" using xq' qd1 qd2 d q0 q1 by linarith+
  have y0: "0 < x * 100" using xb q0 by linarith
  have yn: "2 powi (- 1022) \<le> x * 100" using xb qn q0 by linarith
  have yh: "x * 100 \<le> 2 ^ 1023" using xb big by linarith
  from round_double_rel_error[OF y0 yn yh] obtain y where
    y: "round_double (x * 100) = Finite y" "\<bar>y - x * 100\<bar> \<le> x * 100 / 2 ^ 53" by blast
  have yx: "\<bar>y - x * 100\<bar> \<le> 101 * d"
  proof -
    have "x * 100 / 2 ^ 53 = (x * 100) * d" by (simp add: d_def)
    also have "\<dots> \<le> 101 * d" using xb(2) d(1) by (simp add: mult_right_mono)
    finally show ?thesis using y(2) by simp
  qed
  have yq: "\<bar>y - 100 * q\<bar> \<le> 201 * d" using yx xq' qd1 by linarith
  define p where "p = round_half_even y"
  have py: "\<bar>of_int p - y\<bar> \<le> 1/2" unfolding p_def by (rule round_half_even_bound)
  have res: "completion_percentage completed total_count = Inr p"
    using t x y by (simp add: completion_percentage_def py_truediv_def q_def p_def)
  have pq: "\<bar>of_int p - 100 * q\<bar> \<le> 1/2 + 201 * d" using py yq by linarith
  have td: "2 * of_int total_count * (201 * d) < 1"
  proof -
    have "2 * of_int total_count * (201 * d) < 2 * 2 ^ 44 * (201 * d)"
      using tlt d(1) by simp
    also have "\<dots> \<le> 1" by (simp add: d_def)
    finally show ?thesis .
  qed
  have "\<bar>of_int (2 * (p * total_count - 100 * completed))\<bar>
        = 2 * of_int total_count * \<bar>of_int p - 100 * q\<bar>"
  proof -
    have "(of_int (2 * (p * total_count - 100 * completed)) :: rat)
          = 2 * of_int total_count * (of_int p - 100 * q)"
      using tq by (simp add: algebra_simps)
    then show ?thesis using tpos by (simp add: abs_mult)
  qed
  also have "\<dots> \<le> 2 * of_int total_count * (1/2 + 201 * d)"
    using pq tpos by (simp add: mult_left_mono)
  also have "\<dots> = of_int total_count + 2 * of_int total_count * (201 * d)"
    by (simp add: algebra_simps)
  also have "\<dots> < of_int total_count + 1" using td by simp
  finally have "(of_int \<bar>2 * (p * total_count - 100 * completed)\<bar> :: rat) < of_int (total_count + 1)"
    by simp
  then have "\<bar>2 * (p * total_count - 100 * completed)\<bar> < total_count + 1"
    by (simp only: of_int_less_iff)
  then have "\<bar>2 * (p * total_count - 100 * completed)\<bar> \<le> total_count" by simp
  with res show ?thesis by (rule that)
qed

section \<open>Properties of the query operators\<close>

lemma set_insert_by: "set (insert_by ahead x xs) = insert x (set xs)"
  by (induction xs) auto

lemma length_insert_by: "length (insert_by ahead x xs) = Suc (length xs)"
  by (induction xs) auto

lemma set_sort_by: "set (sort_by ahead xs) = set xs"
  by (induction xs) (auto simp: sort_by_def set_insert_by)

lemma length_sort_by: "length (sort_by ahead xs) = length xs"
  by (induction xs) (auto simp: sort_by_def length_insert_by)

lemma sql_limit_Inr:
  assumes "sql_limit n rows = Inr rs"
  shows "set rs \<subseteq> set rows" and "0 \<le> n \<Longrightarrow> int (length rs) \<le> n"
    and "n < 0 \<Longrightarrow> rs = rows"
  using assms by (auto simp: sql_limit_def split: if_splits dest: in_set_takeD)

lemma map_result_Inr:
  "map_result f xs = Inr ys \<Longrightarrow> list_all2 (\<lambda>x y. f x = Inr y) xs ys"
proof (induction xs arbitrary: ys)
  case Nil
  then show ?case by simp
next
  case (Cons x xs)
  then show ?case by (auto split: sum.splits)
qed

section \<open>Properties of the task list\<close>

lemma get_tasks_Inr:
  assumes "get_tasks (Some pool) feature_id status priority limit = Inr ds"
  obtains rows where
    "get_tasks_query (db pool) feature_id status priority (limit_default limit) = Inr rows"
    "list_all2 (\<lambda>r d. and_then (get_tasks_dict (get_tasks_select r)) TaskStatus = Inr d) rows ds"
proof -
  from assms obtain rows where
    q: "get_tasks_query (db pool) feature_id status priority (limit_default limit) = Inr rows"
    and m: "map_result (\<lambda>r. and_then (get_tasks_dict (get_tasks_select r)) TaskStatus) rows
              = Inr ds"
    by (auto simp: get_tasks_def get_db_pool_def and_then_def split: sum.splits)
  from q map_result_Inr[OF m] show ?thesis by (rule that)
qed

text \<open>
  C10, as stated, fails: with the limit \<open>-1\<close> the one task of a database is returned, and
  1 is not at most \<open>-1\<close>.
\<close>

theorem get_tasks_negative_limit_counterexample:
  "map_sum id (\<lambda>ts. (map ts_id ts, int (length ts) \<le> - 1))
     (get_tasks (Some example_pool_one) None None None (Some (- 1))) = Inr ([''t1''], False)"
  by code_simp

text \<open>
  C10, amended. A call of the flat task list that returns gives at most \<open>limit\<close> tasks when
  the limit is not negative, the limit being 1000 when the request has none; a negative
  limit puts no bound, and every task row that passes the filters is returned.
\<close>

theorem get_tasks_limit:
  assumes "get_tasks (Some pool) feature_id status priority limit = Inr ds"
  shows "limit_default None = 1000 \<and>
         (0 \<le> limit_default limit \<longrightarrow> int (length ds) \<le> limit_default limit) \<and>
         (limit_default limit < 0 \<longrightarrow>
            length ds = length (filter (\<lambda>r. sql_true (get_tasks_where feature_id status priority r))
                                  (get_tasks_from (db pool))))"
proof -
  from assms obtain rows where
    q: "get_tasks_query (db pool) feature_id status priority (limit_default limit) = Inr rows"
    and l: "list_all2 (\<lambda>r d. and_then (get_tasks_dict (get_tasks_select r)) TaskStatus = Inr d)
              rows ds"
    by (rule get_tasks_Inr)
  have len: "length ds = length rows" using l by (simp add: list_all2_lengthD)
  note lim = sql_limit_Inr(2,3)[OF q[unfolded get_tasks_query_def]]
  have "limit_default None = 1000" by (simp add: limit_default_def)
  moreover have "int (length ds) \<le> limit_default limit" if "0 \<le> limit_default limit"
    using lim(1)[OF that] len by simp
  moreover have "length ds = length (filter (\<lambda>r. sql_true (get_tasks_where feature_id status priority r))
                                  (get_tasks_from (db pool)))" if "limit_default limit < 0"
    using lim(2)[OF that] len by (simp add: length_sort_by)
  ultimately show ?thesis by blast
qed

text \<open>The task list of the example databases, by evaluation.\<close>

lemma example_one_tasks:
  "map_sum id (map (\<lambda>t. (ts_id t, ts_feature_id t, ts_feature_name t, ts_project_id t)))
     (get_tasks (Some example_pool_one) None None None None)
     = Inr [(''t1'', Some ''22222222-2222-2222-2222-222222222222'', Some ''F'',
             Some ''11111111-1111-1111-1111-111111111111'')]"
  by code_simp

lemma example_one_tasks_unlimited:
  "map_sum id (map ts_id) (get_tasks (Some example_pool_one) None None None (Some (- 1)))
     = Inr [''t1'']"
  by code_simp

lemma example_one_tasks_none:
  "map_sum id (map ts_id) (get_tasks (Some example_pool_one) None None None (Some 0)) = Inr []"
  by code_simp

theorem get_tasks_limit_witness:
  "(\<exists>ds. get_tasks (Some example_pool_one) None None None None = Inr ds \<and>
      (0::int) \<le> limit_default None \<and> int (length ds) \<le> 1000) \<and>
   (\<exists>ds. get_tasks (Some example_pool_one) None None None (Some 0) = Inr ds \<and>
      (0::int) \<le> limit_default (Some 0) \<and> int (length ds) \<le> 0) \<and>
   (\<exists>ds. get_tasks (Some example_pool_one) None None None (Some (- 1)) = Inr ds \<and>
      limit_default (Some (- 1)) < 0 \<and>
      length ds = length (filter (\<lambda>r. sql_true (get_tasks_where None None None r))
                            (get_tasks_from (db example_pool_one))))"
proof -
  from example_one_tasks obtain ds where
    ds: "get_tasks (Some example_pool_one) None None None None = Inr ds"
    by (cases "get_tasks (Some example_pool_one) None None None None") auto
  from get_tasks_limit[OF ds] have "limit_default None = 1000"
    "0 \<le> limit_default None \<longrightarrow> int (length ds) \<le> limit_default None" by blast+
  with ds have a: "\<exists>ds. get_tasks (Some example_pool_one) None None None None = Inr ds \<and>
      (0::int) \<le> limit_default None \<and> int (length ds) \<le> 1000" by auto
  from example_one_tasks_none obtain ds0 where
    ds0: "get_tasks (Some example_pool_one) None None None (Some 0) = Inr ds0"
    by (cases "get_tasks (Some example_pool_one) None None None (Some 0)") auto
  have p0: "(0::int) \<le> limit_default (Some 0)" "limit_default (Some 0) = 0"
    by (simp_all add: limit_default_def)
  from get_tasks_limit[OF ds0] p0 have "int (length ds0) \<le> 0" by auto
  with ds0 p0 have b: "\<exists>ds. get_tasks (Some example_pool_one) None None None (Some 0) = Inr ds \<and>
      (0::int) \<le> limit_default (Some 0) \<and> int (length ds) \<le> 0" by blast
  from example_one_tasks_unlimited obtain dsn where
    dsn: "get_tasks (Some example_pool_one) None None None (Some (- 1)) = Inr dsn"
    by (cases "get_tasks (Some example_pool_one) None None None (Some (- 1))") auto
  have pn: "limit_default (Some (- 1)) < 0" by (simp add: limit_default_def)
  from get_tasks_limit[OF dsn] pn have
    "length dsn = length (filter (\<lambda>r. sql_true (get_tasks_where None None None r))
                            (get_tasks_from (db example_pool_one)))" by blast
  with dsn pn have c: "\<exists>ds. get_tasks (Some example_pool_one) None None None (Some (- 1)) = Inr ds \<and>
      limit_default (Some (- 1)) < 0 \<and>
      length ds = length (filter (\<lambda>r. sql_true (get_tasks_where None None None r))
                            (get_tasks_from (db example_pool_one)))" by blast
  from a b c show ?thesis by (intro conjI)
qed

lemma example_mixed_tasks:
  "map_sum id (map (\<lambda>t. (ts_id t, ts_feature_id t, ts_feature_name t, ts_project_id t)))
     (get_tasks (Some example_pool_mixed) None None None None)
     = Inr [(''t1'', Some ''22222222-2222-2222-2222-222222222222'', None, None)]"
  by code_simp

lemma example_mixed_filter:
  "map_sum id (map (\<lambda>t. (ts_id t, ts_feature_id t, ts_feature_name t, ts_project_id t)))
     (get_tasks (Some example_pool_mixed) (Some ''22222222-2222-2222-2222-222222222222'')
        None None None)
     = Inr [(''t1'', Some ''22222222-2222-2222-2222-222222222222'', None, None)]"
  by code_simp

lemma example_mixed_references:
  "map (\<lambda>t. map (\<lambda>f. (same_identifier (col t ''feature_id'') (col f ''id''),
                       convert_value (col f ''project_id''))) (features example_db_mixed))
     (tasks example_db_mixed)
     = [[(True, SText ''11111111-1111-1111-1111-111111111111'')]]"
  "map (\<lambda>t. convert_value (spec_effective_project example_db_mixed t)) (tasks example_db_mixed)
     = [SText ''11111111-1111-1111-1111-111111111111'']"
  by code_simp+

text \<open>
  C2 fails on the code. The one task of the database below has no project reference and
  names its feature by the hyphenated text of the identifier, the feature's own id being
  stored as the sixteen bytes: the two encode the same identifier, the feature belongs to
  the project \<open>1111\<dots>\<close>, and that is the task's effective project. The task list finds the
  task under that feature (its filter uses the three-form match), but its join compares the
  stored values, \<^verbatim>\<open>t.feature_id = f.id\<close>, and joins no feature: the record has no feature
  name and no project. With the reference stored as sixteen bytes the same task gets both.
\<close>

theorem get_tasks_feature_reference_missed:
  "map (\<lambda>t. map (\<lambda>f. (same_identifier (col t ''feature_id'') (col f ''id''),
                       convert_value (col f ''project_id''))) (features example_db_mixed))
     (tasks example_db_mixed)
     = [[(True, SText ''11111111-1111-1111-1111-111111111111'')]] \<and>
   map (\<lambda>t. convert_value (spec_effective_project example_db_mixed t)) (tasks example_db_mixed)
     = [SText ''11111111-1111-1111-1111-111111111111''] \<and>
   map_sum id (map (\<lambda>t. (ts_id t, ts_feature_id t, ts_feature_name t, ts_project_id t)))
     (get_tasks (Some example_pool_mixed) (Some ''22222222-2222-2222-2222-222222222222'')
        None None None)
     = Inr [(''t1'', Some ''22222222-2222-2222-2222-222222222222'', None, None)] \<and>
   map_sum id (map (\<lambda>t. (ts_id t, ts_feature_id t, ts_feature_name t, ts_project_id t)))
     (get_tasks (Some example_pool_mixed) None None None None)
     = Inr [(''t1'', Some ''22222222-2222-2222-2222-222222222222'', None, None)] \<and>
   map_sum id (map (\<lambda>t. (ts_id t, ts_feature_id t, ts_feature_name t, ts_project_id t)))
     (get_tasks (Some example_pool_one) None None None None)
     = Inr [(''t1'', Some ''22222222-2222-2222-2222-222222222222'', Some ''F'',
             Some ''11111111-1111-1111-1111-111111111111'')]"
  by (intro conjI example_mixed_references example_mixed_filter example_mixed_tasks
      example_one_tasks)

section \<open>Properties of the status update\<close>

text \<open>
  C8. A status update whose status, in lowercase with hyphens for underscores, is not in
  the accepted list leaves the server as it was (the stored rows, so also every
  \<^verbatim>\<open>modified_at\<close>, and nothing is broadcast), and with the pool in place the answer is
  the 400 error.
\<close>

theorem update_task_status_invalid:
  assumes "normalized_status_of status \<notin> set valid_statuses"
  shows "snd (update_task_status srv now task_id status) = srv \<and>
         (db_pool srv \<noteq> None \<longrightarrow>
            fst (update_task_status srv now task_id status) =
              Inl (HTTPException 400
                ''Invalid status. Must be one of: pending, in-progress, in_progress, completed, cancelled, deferred, blocked''))"
  using assms
  by (auto simp: update_task_status_def get_db_pool_def Let_def split: option.splits)

theorem update_task_status_invalid_witness:
  "normalized_status_of ''urgent'' \<notin> set valid_statuses \<and>
   update_task_status \<lparr>db_pool = Some example_pool, enable_websocket = True, broadcasts = []\<rparr>
       ''2024-01-03T00:00:00'' ''t2'' ''urgent'' =
     (Inl (HTTPException 400
        ''Invalid status. Must be one of: pending, in-progress, in_progress, completed, cancelled, deferred, blocked''),
      \<lparr>db_pool = Some example_pool, enable_websocket = True, broadcasts = []\<rparr>)"
proof -
  have h: "normalized_status_of ''urgent'' \<notin> set valid_statuses" by code_simp
  from update_task_status_invalid[OF h,
      of "\<lparr>db_pool = Some example_pool, enable_websocket = True, broadcasts = []\<rparr>"
         "''2024-01-03T00:00:00''" "''t2''"] h
  show ?thesis by (simp add: prod_eq_iff)
qed

section \<open>Properties of the project overview\<close>

lemma and_then_Inr: "and_then m f = Inr y \<longleftrightarrow> (\<exists>x. m = Inr x \<and> f x = Inr y)"
  by (cases m) (simp_all add: and_then_def)

lemma and_then_simps [simp]: "and_then (Inr x) f = f x" "and_then (Inl e) f = Inl e"
  by (simp_all add: and_then_def)

text \<open>What a returned overview is made of.\<close>

lemma get_project_overview_Inr:
  assumes "get_project_overview recent (Some pool) project_id days = Inr r"
  defines "pid \<equiv> bytes_param (fst (uuid_params project_id))"
  obtains project_row total_complexity completed_complexity where
    "find_project (db pool) project_id = Some project_row"
    "map_result overview_feature (overview_features_rows (db pool) pid) = Inr (ov_features r)"
    "map_result overview_task (overview_tasks_rows recent (db pool) pid days) = Inr (ov_tasks r)"
    "py_int (overview_total_complexity (db pool) pid) = Inr total_complexity"
    "py_int (overview_completed_complexity (db pool) pid) = Inr completed_complexity"
    "completion_percentage (overview_total_completed_count (db pool) pid)
       (overview_total_task_count (db pool) pid) = Inr (task_completion_percentage (ov_stats r))"
    "completion_percentage completed_complexity total_complexity
       = Inr (complexity_completion_percentage (ov_stats r))"
    "completion_percentage (overview_completed_features (db pool) pid)
       (overview_total_features (db pool) pid) = Inr (feature_completion_percentage (ov_stats r))"
    "feature_count (ov_stats r) = int (length (ov_features r))"
    "task_count (ov_stats r) = int (length (ov_tasks r))"
    "completed_count (ov_stats r) =
       int (length (filter (\<lambda>t. t_status t = SText ''completed'') (ov_tasks r)))"
    "total_task_count (ov_stats r) = overview_total_task_count (db pool) pid"
    "total_completed_count (ov_stats r) = overview_total_completed_count (db pool) pid"
    "dependency_count (ov_stats r) = overview_dep_count (db pool) pid"
    "section_count (ov_stats r) = overview_section_count (db pool) pid"
proof -
  from assms(1) obtain project_row where
    fp: "find_project (db pool) project_id = Some project_row"
    by (auto simp: get_project_overview_def get_db_pool_def Let_def split: option.splits)
  from assms(1) fp obtain fs ts tc cc p1 p2 p3 i n where
    c: "map_result overview_feature (overview_features_rows (db pool) pid) = Inr fs"
       "map_result overview_task (overview_tasks_rows recent (db pool) pid days) = Inr ts"
       "py_int (overview_total_complexity (db pool) pid) = Inr tc"
       "py_int (overview_completed_complexity (db pool) pid) = Inr cc"
       "completion_percentage (overview_total_completed_count (db pool) pid)
          (overview_total_task_count (db pool) pid) = Inr p1"
       "completion_percentage cc tc = Inr p2"
       "completion_percentage (overview_completed_features (db pool) pid)
          (overview_total_features (db pool) pid) = Inr p3"
    and r: "r = \<lparr>ov_project =
                    \<lparr>p_id = i, p_name = n,
                     p_summary = dict_get (dict_from_row project_row) ''summary'',
                     p_status = dict_get (dict_from_row project_row) ''status'',
                     p_created_at = dict_get (dict_from_row project_row) ''created_at'',
                     p_modified_at = dict_get (dict_from_row project_row) ''modified_at''\<rparr>,
                  ov_features = fs,
                  ov_tasks = ts,
                  ov_stats =
                    \<lparr>feature_count = int (length fs),
                     task_count = int (length ts),
                     completed_count =
                       int (length (filter (\<lambda>t. t_status t = SText ''completed'') ts)),
                     dependency_count = overview_dep_count (db pool) pid,
                     section_count = overview_section_count (db pool) pid,
                     total_task_count = overview_total_task_count (db pool) pid,
                     total_completed_count = overview_total_completed_count (db pool) pid,
                     task_completion_percentage = p1,
                     complexity_completion_percentage = p2,
                     feature_completion_percentage = p3\<rparr>\<rparr>"
    unfolding get_project_overview_def get_db_pool_def pid_def Let_def
    by (simp add: and_then_Inr) blast
  show ?thesis
    by (rule that[OF fp, of tc cc]) (simp_all add: r c)
qed

section \<open>The example project\<close>

lemma get_project_overview_intro:
  assumes "find_project (db pool) project_id = Some project_row"
    and "bytes_param (fst (uuid_params project_id)) = pid"
    and "map_result overview_feature (overview_features_rows (db pool) pid) = Inr fs"
    and "map_result overview_task (overview_tasks_rows recent (db pool) pid days) = Inr ts"
    and "py_int (overview_total_complexity (db pool) pid) = Inr tc"
    and "py_int (overview_completed_complexity (db pool) pid) = Inr cc"
    and "completion_percentage (overview_total_completed_count (db pool) pid)
          (overview_total_task_count (db pool) pid) = Inr p1"
    and "completion_percentage cc tc = Inr p2"
    and "completion_percentage (overview_completed_features (db pool) pid)
          (overview_total_features (db pool) pid) = Inr p3"
    and "dict_item (dict_from_row project_row) ''id'' = Inr i"
    and "dict_item (dict_from_row project_row) ''name'' = Inr n"
  shows "\<exists>r. get_project_overview recent (Some pool) project_id days = Inr r \<and>
           ov_features r = fs \<and> ov_tasks r = ts \<and>
           task_completion_percentage (ov_stats r) = p1 \<and>
           complexity_completion_percentage (ov_stats r) = p2 \<and>
           feature_completion_percentage (ov_stats r) = p3"
  using assms by (simp add: get_project_overview_def get_db_pool_def Let_def)

lemma example_uuid:
  "bytes_param (fst (uuid_params ''11111111-1111-1111-1111-111111111111'')) = SBlob example_P"
  by code_simp

lemma example_find_project:
  "find_project example_db ''11111111-1111-1111-1111-111111111111''
     = Some [(''id'', SBlob example_P), (''name'', SText ''P'')]"
  by code_simp

lemma example_project_fields:
  "dict_item (dict_from_row [(''id'', SBlob example_P), (''name'', SText ''P'')]) ''id''
     = Inr (SText ''11111111-1111-1111-1111-111111111111'')"
  "dict_item (dict_from_row [(''id'', SBlob example_P), (''name'', SText ''P'')]) ''name''
     = Inr (SText ''P'')"
  by code_simp+

lemma example_features:
  "map_result overview_feature (overview_features_rows example_db (SBlob example_P))
     = Inr [\<lparr>f_id = SText ''22222222-2222-2222-2222-222222222222'', f_name = SText ''F'',
              f_status = SText ''PENDING'', f_task_count = SInt 1, f_completed_count = SInt 1,
              f_in_progress_count = SInt 0\<rparr>]"
  by code_simp

lemma example_tasks_window:
  "map_result overview_task (overview_tasks_rows example_recent example_db (SBlob example_P) (Some 7))
     = Inr [\<lparr>t_id = SText ''t2'', t_title = SText [], t_status = SText ''pending'',
              t_priority = SNull, t_complexity = SInt 2, t_feature_name = SNull,
              t_modified_at = SText ''2024-01-02''\<rparr>]"
  by code_simp

lemma example_totals:
  "overview_total_task_count example_db (SBlob example_P) = 2"
  "overview_total_completed_count example_db (SBlob example_P) = 1"
  "overview_total_complexity example_db (SBlob example_P) = SInt 10"
  "overview_completed_complexity example_db (SBlob example_P) = SInt 8"
  "overview_total_features example_db (SBlob example_P) = 1"
  "overview_completed_features example_db (SBlob example_P) = 0"
  by code_simp+

lemma completion_percentage_exact:
  assumes "0 \<le> completed" "completed \<le> total_count" "0 < total_count" "total_count < 2 ^ 44"
    and "100 * completed = p * total_count"
  shows "completion_percentage completed total_count = Inr p"
proof -
  from assms(1-4) obtain p' where p': "completion_percentage completed total_count = Inr p'"
    "\<bar>2 * (p' * total_count - 100 * completed)\<bar> \<le> total_count"
    by (rule completion_percentage_nearest)
  have "2 * (p' * total_count - 100 * completed) = (2 * (p' - p)) * total_count"
    using assms(5) by (simp add: algebra_simps)
  with p'(2) have "\<bar>2 * (p' - p)\<bar> * total_count \<le> 1 * total_count"
    using assms(3) by (simp add: abs_mult)
  then have "\<bar>2 * (p' - p)\<bar> \<le> 1" using assms(3) by (simp only: mult_le_cancel_right_pos)
  then have "p' = p" by simp
  with p'(1) show ?thesis by simp
qed

lemma example_percentages:
  "completion_percentage 1 2 = Inr 50"
  "completion_percentage 8 10 = Inr 80"
  "completion_percentage 0 1 = Inr 0"
  "completion_percentage 3 4 = Inr 75"
  by (rule completion_percentage_exact; simp)+
lemma example_overview:
  "\<exists>r. get_project_overview example_recent (Some example_pool)
          ''11111111-1111-1111-1111-111111111111'' (Some 7) = Inr r \<and>
       ov_tasks r = [\<lparr>t_id = SText ''t2'', t_title = SText [], t_status = SText ''pending'',
              t_priority = SNull, t_complexity = SInt 2, t_feature_name = SNull,
              t_modified_at = SText ''2024-01-02''\<rparr>] \<and>
       task_completion_percentage (ov_stats r) = 50 \<and>
       complexity_completion_percentage (ov_stats r) = 80 \<and>
       feature_completion_percentage (ov_stats r) = 0"
proof -
  have d: "db example_pool = example_db" by (simp add: example_pool_def)
  from get_project_overview_intro[where pool = example_pool, unfolded d, OF example_find_project
      example_uuid example_features example_tasks_window, unfolded example_totals,
      OF py_int.simps(1) py_int.simps(1) example_percentages(1,2,3) example_project_fields]
  obtain r where "get_project_overview example_recent (Some example_pool)
          ''11111111-1111-1111-1111-111111111111'' (Some 7) = Inr r \<and>
       ov_features r = [\<lparr>f_id = SText ''22222222-2222-2222-2222-222222222222'', f_name = SText ''F'',
              f_status = SText ''PENDING'', f_task_count = SInt 1, f_completed_count = SInt 1,
              f_in_progress_count = SInt 0\<rparr>] \<and>
       ov_tasks r = [\<lparr>t_id = SText ''t2'', t_title = SText [], t_status = SText ''pending'',
              t_priority = SNull, t_complexity = SInt 2, t_feature_name = SNull,
              t_modified_at = SText ''2024-01-02''\<rparr>] \<and>
       task_completion_percentage (ov_stats r) = 50 \<and>
       complexity_completion_percentage (ov_stats r) = 80 \<and>
       feature_completion_percentage (ov_stats r) = 0" by blast
  then show ?thesis by blast
qed

lemma example_text_find_project:
  "find_project example_db_text ''11111111-1111-1111-1111-111111111111''
     = Some [(''id'', SBlob example_P), (''name'', SText ''P'')]"
  by code_simp

lemma example_text_rows:
  "overview_features_rows example_db_text (SBlob example_P) = []"
  "overview_tasks_rows example_recent example_db_text (SBlob example_P) None = []"
  by code_simp+

lemma example_text_totals:
  "overview_total_task_count example_db_text (SBlob example_P) = 0"
  "overview_total_completed_count example_db_text (SBlob example_P) = 0"
  "overview_total_complexity example_db_text (SBlob example_P) = SInt 0"
  "overview_completed_complexity example_db_text (SBlob example_P) = SInt 0"
  "overview_total_features example_db_text (SBlob example_P) = 0"
  "overview_completed_features example_db_text (SBlob example_P) = 0"
  by code_simp+

lemma example_text_match:
  "map (\<lambda>f. match_uuid (col f ''project_id'') ''11111111-1111-1111-1111-111111111111'')
     (features example_db_text) = [Some True]"
  "map (\<lambda>t. match_uuid (col t ''project_id'') ''11111111-1111-1111-1111-111111111111'')
     (tasks example_db_text) = [None, Some True]"
  by code_simp+

lemma example_text_overview:
  "\<exists>r. get_project_overview example_recent (Some example_pool_text)
          ''11111111-1111-1111-1111-111111111111'' None = Inr r \<and>
       ov_features r = [] \<and> ov_tasks r = [] \<and>
       task_completion_percentage (ov_stats r) = 0 \<and>
       complexity_completion_percentage (ov_stats r) = 0 \<and>
       feature_completion_percentage (ov_stats r) = 0"
proof -
  have d: "db example_pool_text = example_db_text" by (simp add: example_pool_text_def)
  have z: "completion_percentage 0 0 = Inr 0" by (simp add: completion_percentage_zero_total)
  have m: "map_result overview_feature [] = Inr []" "map_result overview_task [] = Inr []"
    by simp_all
  from get_project_overview_intro[where pool = example_pool_text and recent = example_recent
        and days = None,
      unfolded d, OF example_text_find_project example_uuid,
      unfolded example_text_rows example_text_totals,
      OF m py_int.simps(1) py_int.simps(1) z z z example_project_fields]
  show ?thesis .
qed

section \<open>The percentages of the endpoints\<close>

lemma completion_percentage_range:
  fixes completed total_count p :: int
  assumes "0 \<le> completed" "completed \<le> total_count" "0 < total_count"
    and "\<bar>2 * (p * total_count - 100 * completed)\<bar> \<le> total_count"
  shows "0 \<le> p \<and> p \<le> 100"
proof -
  have "0 \<le> p"
  proof (rule ccontr)
    assume "\<not> 0 \<le> p"
    then have "p \<le> - 1" by simp
    then have "p * total_count \<le> (- 1) * total_count"
      using assms(3) by (intro mult_right_mono) simp_all
    with assms show False by (simp add: abs_le_iff)
  qed
  moreover have "p \<le> 100"
  proof (rule ccontr)
    assume "\<not> p \<le> 100"
    then have "101 \<le> p" by simp
    then have "101 * total_count \<le> p * total_count"
      using assms(3) by (intro mult_right_mono) simp_all
    with assms show False by (simp add: abs_le_iff)
  qed
  ultimately show ?thesis ..
qed

lemma summary_of_row_Inr:
  assumes "summary_of_row row = Inr e"
  shows "completion_percentage (s_completed_task_count e) (s_task_count e)
           = Inr (s_task_completion_percentage e)"
    and "completion_percentage (s_completed_complexity e) (s_total_complexity e)
           = Inr (s_complexity_completion_percentage e)"
    and "completion_percentage (s_completed_feature_count e) (s_feature_count e)
           = Inr (s_feature_completion_percentage e)"
    and "or_zero row ''task_count'' = Inr (s_task_count e)"
    and "or_zero row ''total_complexity'' = Inr (s_total_complexity e)"
    and "or_zero row ''feature_count'' = Inr (s_feature_count e)"
  using assms unfolding summary_of_row_def Let_def
  by (auto simp: and_then_Inr)

text \<open>
  C1. A completion percentage is never a division by zero and never the rounding of a
  not-a-number, and it is 0 when the total is 0 (or negative). For counts
  \<open>0 \<le> completed \<le> total < 2\<^sup>4\<^sup>4\<close> it is an integer between 0 and 100 nearest to
  \<open>100 \<sqdot> completed / total\<close>. Every entry of the project summary and every project overview
  carries, for tasks, complexity and features, the completion percentage of the
  corresponding pair of counts.
\<close>

theorem completion_percentages:
  "completion_percentage completed total_count \<noteq> Inl ZeroDivisionError \<and>
   completion_percentage completed total_count \<noteq> Inl ValueError \<and>
   (total_count \<le> 0 \<longrightarrow> completion_percentage completed total_count = Inr 0) \<and>
   (0 \<le> completed \<and> completed \<le> total_count \<and> 0 < total_count \<and> total_count < 2 ^ 44 \<longrightarrow>
      (\<exists>p. completion_percentage completed total_count = Inr p \<and> 0 \<le> p \<and> p \<le> 100 \<and>
           \<bar>2 * (p * total_count - 100 * completed)\<bar> \<le> total_count)) \<and>
   (\<forall>e. summary_of_row row = Inr e \<longrightarrow>
      completion_percentage (s_completed_task_count e) (s_task_count e)
        = Inr (s_task_completion_percentage e) \<and>
      completion_percentage (s_completed_complexity e) (s_total_complexity e)
        = Inr (s_complexity_completion_percentage e) \<and>
      completion_percentage (s_completed_feature_count e) (s_feature_count e)
        = Inr (s_feature_completion_percentage e)) \<and>
   (\<forall>r. get_project_overview recent (Some pool) project_id days = Inr r \<longrightarrow>
      (\<exists>total_complexity completed_complexity.
         py_int (overview_total_complexity (db pool) (bytes_param (fst (uuid_params project_id))))
           = Inr total_complexity \<and>
         py_int (overview_completed_complexity (db pool)
                   (bytes_param (fst (uuid_params project_id)))) = Inr completed_complexity \<and>
         completion_percentage (total_completed_count (ov_stats r)) (total_task_count (ov_stats r))
           = Inr (task_completion_percentage (ov_stats r)) \<and>
         completion_percentage completed_complexity total_complexity
           = Inr (complexity_completion_percentage (ov_stats r)) \<and>
         completion_percentage
           (overview_completed_features (db pool) (bytes_param (fst (uuid_params project_id))))
           (overview_total_features (db pool) (bytes_param (fst (uuid_params project_id))))
           = Inr (feature_completion_percentage (ov_stats r))))"
proof (intro conjI impI allI)
  show "completion_percentage completed total_count \<noteq> Inl ZeroDivisionError"
    by (rule completion_percentage_no_zero_division)
  show "completion_percentage completed total_count \<noteq> Inl ValueError"
    by (rule completion_percentage_no_NaN)
  show "completion_percentage completed total_count = Inr 0" if "total_count \<le> 0"
    using that by (rule completion_percentage_zero_total)
next
  assume h: "0 \<le> completed \<and> completed \<le> total_count \<and> 0 < total_count \<and> total_count < 2 ^ 44"
  then obtain p where p: "completion_percentage completed total_count = Inr p"
    "\<bar>2 * (p * total_count - 100 * completed)\<bar> \<le> total_count"
    using completion_percentage_nearest[of completed total_count] by blast
  from h p(2) have "0 \<le> p \<and> p \<le> 100" by (intro completion_percentage_range) simp_all
  with p show "\<exists>p. completion_percentage completed total_count = Inr p \<and> 0 \<le> p \<and> p \<le> 100 \<and>
           \<bar>2 * (p * total_count - 100 * completed)\<bar> \<le> total_count" by blast
next
  fix e assume e: "summary_of_row row = Inr e"
  show "completion_percentage (s_completed_task_count e) (s_task_count e)
        = Inr (s_task_completion_percentage e)"
    by (rule summary_of_row_Inr(1)[OF e])
  show "completion_percentage (s_completed_complexity e) (s_total_complexity e)
        = Inr (s_complexity_completion_percentage e)"
    by (rule summary_of_row_Inr(2)[OF e])
  show "completion_percentage (s_completed_feature_count e) (s_feature_count e)
        = Inr (s_feature_completion_percentage e)"
    by (rule summary_of_row_Inr(3)[OF e])
next
  fix r assume "get_project_overview recent (Some pool) project_id days = Inr r"
  then obtain project_row tc cc where
    c: "py_int (overview_total_complexity (db pool) (bytes_param (fst (uuid_params project_id))))
          = Inr tc"
       "py_int (overview_completed_complexity (db pool)
                  (bytes_param (fst (uuid_params project_id)))) = Inr cc"
       "completion_percentage
          (overview_total_completed_count (db pool) (bytes_param (fst (uuid_params project_id))))
          (overview_total_task_count (db pool) (bytes_param (fst (uuid_params project_id))))
          = Inr (task_completion_percentage (ov_stats r))"
       "completion_percentage cc tc = Inr (complexity_completion_percentage (ov_stats r))"
       "completion_percentage
          (overview_completed_features (db pool) (bytes_param (fst (uuid_params project_id))))
          (overview_total_features (db pool) (bytes_param (fst (uuid_params project_id))))
          = Inr (feature_completion_percentage (ov_stats r))"
       "total_task_count (ov_stats r)
          = overview_total_task_count (db pool) (bytes_param (fst (uuid_params project_id)))"
       "total_completed_count (ov_stats r)
          = overview_total_completed_count (db pool) (bytes_param (fst (uuid_params project_id)))"
    by (rule get_project_overview_Inr)
  from c(3) c(6,7) have
    "completion_percentage (total_completed_count (ov_stats r)) (total_task_count (ov_stats r))
       = Inr (task_completion_percentage (ov_stats r))" by simp
  with c(1,2,4,5) show "\<exists>total_complexity completed_complexity.
         py_int (overview_total_complexity (db pool) (bytes_param (fst (uuid_params project_id))))
           = Inr total_complexity \<and>
         py_int (overview_completed_complexity (db pool)
                   (bytes_param (fst (uuid_params project_id)))) = Inr completed_complexity \<and>
         completion_percentage (total_completed_count (ov_stats r)) (total_task_count (ov_stats r))
           = Inr (task_completion_percentage (ov_stats r)) \<and>
         completion_percentage completed_complexity total_complexity
           = Inr (complexity_completion_percentage (ov_stats r)) \<and>
         completion_percentage
           (overview_completed_features (db pool) (bytes_param (fst (uuid_params project_id))))
           (overview_total_features (db pool) (bytes_param (fst (uuid_params project_id))))
           = Inr (feature_completion_percentage (ov_stats r))" by blast
qed

lemma example_summary:
  "\<exists>e. summary_of_row example_summary_row = Inr e \<and> s_task_count e = 4 \<and>
       s_completed_task_count e = 3 \<and> s_total_complexity e = 0 \<and>
       s_completed_complexity e = 0 \<and>
       s_task_completion_percentage e = 75 \<and> s_complexity_completion_percentage e = 0"
proof -
  have o: "or_zero example_summary_row ''task_count'' = Inr 4"
    "or_zero example_summary_row ''completed_task_count'' = Inr 3"
    "or_zero example_summary_row ''total_complexity'' = Inr 0"
    "or_zero example_summary_row ''completed_complexity'' = Inr 0"
    "or_zero example_summary_row ''feature_count'' = Inr 0"
    "or_zero example_summary_row ''completed_feature_count'' = Inr 0"
    by code_simp+
  have d: "dict_item (dict_from_row example_summary_row) ''id''
             = Inr (SText ''11111111-1111-1111-1111-111111111111'')"
    "dict_item (dict_from_row example_summary_row) ''name'' = Inr (SText ''P'')"
    by code_simp+
  have z: "completion_percentage 0 0 = Inr 0" by (simp add: completion_percentage_zero_total)
  show ?thesis
    unfolding summary_of_row_def Let_def by (simp add: o d z example_percentages(4))
qed

theorem completion_percentages_witness:
  "completion_percentage 3 4 = Inr 75 \<and> completion_percentage 0 0 = Inr 0 \<and>
   completion_percentage 5 0 = Inr 0 \<and>
   (\<exists>e. summary_of_row example_summary_row = Inr e \<and>
      completion_percentage 3 4 = Inr (s_task_completion_percentage e) \<and>
      completion_percentage 0 0 = Inr (s_complexity_completion_percentage e)) \<and>
   (\<exists>r. get_project_overview example_recent (Some example_pool)
          ''11111111-1111-1111-1111-111111111111'' (Some 7) = Inr r \<and>
      completion_percentage (total_completed_count (ov_stats r)) (total_task_count (ov_stats r))
        = Inr 50)"
proof -
  note n = completion_percentages[of 3 4, THEN conjunct2, THEN conjunct2, THEN conjunct2,
      THEN conjunct1]
  have "(0::int) \<le> 3 \<and> (3::int) \<le> 4 \<and> (0::int) < 4 \<and> (4::int) < 2 ^ 44" by simp
  with n obtain p where
    p: "completion_percentage 3 4 = Inr p" "\<bar>2 * (p * 4 - 100 * 3)\<bar> \<le> 4" by blast
  from p(2) have "p = 75" by presburger
  with p(1) have a: "completion_percentage 3 4 = Inr 75" by simp
  note z = completion_percentages[of _ 0, THEN conjunct2, THEN conjunct2, THEN conjunct1]
  have b: "completion_percentage 0 0 = Inr 0" "completion_percentage 5 0 = Inr 0"
    using z[of 0] z[of 5] by simp_all
  from example_summary obtain e where
    e: "summary_of_row example_summary_row = Inr e" and
    ev: "s_task_count e = 4" "s_completed_task_count e = 3" "s_total_complexity e = 0"
       "s_completed_complexity e = 0" by blast
  note s = completion_percentages[where row = example_summary_row, THEN conjunct2,
      THEN conjunct2, THEN conjunct2, THEN conjunct2, THEN conjunct1, rule_format, OF e]
  from s have c:
    "completion_percentage 3 4 = Inr (s_task_completion_percentage e)"
    "completion_percentage 0 0 = Inr (s_complexity_completion_percentage e)"
    unfolding ev by blast+
  from example_overview obtain r where
    r: "get_project_overview example_recent (Some example_pool)
          ''11111111-1111-1111-1111-111111111111'' (Some 7) = Inr r"
    and ps: "task_completion_percentage (ov_stats r) = 50" by blast
  note v = completion_percentages[where recent = example_recent and pool = example_pool
      and project_id = "''11111111-1111-1111-1111-111111111111''" and days = "Some 7",
      THEN conjunct2, THEN conjunct2, THEN conjunct2, THEN conjunct2, THEN conjunct2,
      rule_format, OF r]
  from v ps have f: "completion_percentage (total_completed_count (ov_stats r))
      (total_task_count (ov_stats r)) = Inr 50" by auto
  from a b e c r f show ?thesis by blast
qed

lemma example_counts:
  "\<exists>r. get_project_overview example_recent (Some example_pool)
          ''11111111-1111-1111-1111-111111111111'' (Some 7) = Inr r \<and>
       task_count (ov_stats r) = 1 \<and> completed_count (ov_stats r) = 0 \<and>
       total_task_count (ov_stats r) = 2 \<and> total_completed_count (ov_stats r) = 1 \<and>
       percentages r = (50, 80, 0)"
proof -
  from example_overview obtain r where
    r: "get_project_overview example_recent (Some example_pool)
          ''11111111-1111-1111-1111-111111111111'' (Some 7) = Inr r"
    and ts: "ov_tasks r = [\<lparr>t_id = SText ''t2'', t_title = SText [], t_status = SText ''pending'',
              t_priority = SNull, t_complexity = SInt 2, t_feature_name = SNull,
              t_modified_at = SText ''2024-01-02''\<rparr>]"
    and ps: "task_completion_percentage (ov_stats r) = 50"
       "complexity_completion_percentage (ov_stats r) = 80"
       "feature_completion_percentage (ov_stats r) = 0" by blast
  have d: "db example_pool = example_db" by (simp add: example_pool_def)
  from r obtain project_row tc cc where
    "task_count (ov_stats r) = int (length (ov_tasks r))"
    "completed_count (ov_stats r) =
       int (length (filter (\<lambda>t. t_status t = SText ''completed'') (ov_tasks r)))"
    "total_task_count (ov_stats r) = overview_total_task_count (db example_pool)
        (bytes_param (fst (uuid_params ''11111111-1111-1111-1111-111111111111'')))"
    "total_completed_count (ov_stats r) = overview_total_completed_count (db example_pool)
        (bytes_param (fst (uuid_params ''11111111-1111-1111-1111-111111111111'')))"
    by (rule get_project_overview_Inr)
  then have "task_count (ov_stats r) = 1" "completed_count (ov_stats r) = 0"
    "total_task_count (ov_stats r) = 2" "total_completed_count (ov_stats r) = 1"
    unfolding d example_uuid example_totals ts by simp_all
  with r ps show ?thesis by (auto simp: percentages_def)
qed

lemma example_text_window_rows:
  "overview_tasks_rows example_recent example_db_text (SBlob example_P) (Some 7) = []"
  by code_simp

lemma example_text_window_overview:
  "\<exists>r. get_project_overview example_recent (Some example_pool_text)
          ''11111111-1111-1111-1111-111111111111'' (Some 7) = Inr r \<and>
       ov_tasks r = [] \<and>
       task_count (ov_stats r) = 0 \<and> completed_count (ov_stats r) = 0 \<and>
       total_task_count (ov_stats r) = 0 \<and> total_completed_count (ov_stats r) = 0 \<and>
       percentages r = (0, 0, 0)"
proof -
  have d: "db example_pool_text = example_db_text" by (simp add: example_pool_text_def)
  have z: "completion_percentage 0 0 = Inr 0" by (simp add: completion_percentage_zero_total)
  have m: "map_result overview_feature [] = Inr []" "map_result overview_task [] = Inr []"
    by simp_all
  from get_project_overview_intro[where pool = example_pool_text and recent = example_recent
        and days = "Some 7",
      unfolded d, OF example_text_find_project example_uuid,
      unfolded example_text_rows example_text_window_rows example_text_totals,
      OF m py_int.simps(1) py_int.simps(1) z z z example_project_fields]
  obtain r where
    r: "get_project_overview example_recent (Some example_pool_text)
          ''11111111-1111-1111-1111-111111111111'' (Some 7) = Inr r"
    and e: "ov_tasks r = []"
       "task_completion_percentage (ov_stats r) = 0"
       "complexity_completion_percentage (ov_stats r) = 0"
       "feature_completion_percentage (ov_stats r) = 0" by blast
  from r obtain project_row tc cc where
    "task_count (ov_stats r) = int (length (ov_tasks r))"
    "completed_count (ov_stats r) =
       int (length (filter (\<lambda>t. t_status t = SText ''completed'') (ov_tasks r)))"
    "total_task_count (ov_stats r) = overview_total_task_count (db example_pool_text)
        (bytes_param (fst (uuid_params ''11111111-1111-1111-1111-111111111111'')))"
    "total_completed_count (ov_stats r) = overview_total_completed_count (db example_pool_text)
        (bytes_param (fst (uuid_params ''11111111-1111-1111-1111-111111111111'')))"
    by (rule get_project_overview_Inr)
  then have "task_count (ov_stats r) = 0" "completed_count (ov_stats r) = 0"
    "total_task_count (ov_stats r) = 0" "total_completed_count (ov_stats r) = 0"
    unfolding d example_uuid example_text_totals e by simp_all
  with r e show ?thesis by (auto simp: percentages_def)
qed

lemma example_text_project:
  "map (\<lambda>f. (col f ''id'', status_completed (col f ''status'')))
     (spec_project_features example_db_text ''11111111-1111-1111-1111-111111111111'')
     = [(SBlob example_F, False)]"
  "map (\<lambda>t. (col t ''id'', status_completed (col t ''status''), col t ''complexity'',
             example_recent 7 (col t ''modified_at'')))
     (spec_project_tasks example_db_text ''11111111-1111-1111-1111-111111111111'')
     = [(SText ''t1'', True, SInt 8, Some False), (SText ''t2'', False, SInt 2, Some True)]"
  by code_simp+

text \<open>
  C3 fails on the code, by the defect of C4. The project \<open>1111\<dots>\<close> below has one feature, not
  completed, and two tasks: \<open>t1\<close> under the feature, completed, of complexity 8 and outside
  the window of 7 days, and \<open>t2\<close> directly under the project, pending, of complexity 2 and
  within the window. The totals over all its tasks and features are 1 of 2 tasks, 8 of 10
  in complexity and 0 of 1 features, that is 50, 80 and 0 percent, and one task is to be
  displayed. The feature and \<open>t2\<close> refer to the project by the hyphenated text; the overview
  compares with the sixteen bytes only, and answers no task displayed, totals of 0 and the
  percentages 0, 0, 0. With the references stored as sixteen bytes it answers one task
  displayed, the totals 1 of 2 and the percentages 50, 80, 0.
\<close>

theorem overview_totals_text_references_missed:
  "map (\<lambda>f. (col f ''id'', status_completed (col f ''status'')))
     (spec_project_features example_db_text ''11111111-1111-1111-1111-111111111111'')
     = [(SBlob example_F, False)] \<and>
   map (\<lambda>t. (col t ''id'', status_completed (col t ''status''), col t ''complexity'',
             example_recent 7 (col t ''modified_at'')))
     (spec_project_tasks example_db_text ''11111111-1111-1111-1111-111111111111'')
     = [(SText ''t1'', True, SInt 8, Some False), (SText ''t2'', False, SInt 2, Some True)] \<and>
   completion_percentage 1 2 = Inr 50 \<and> completion_percentage 8 10 = Inr 80 \<and>
   completion_percentage 0 1 = Inr 0 \<and>
   (\<exists>r. get_project_overview example_recent (Some example_pool_text)
          ''11111111-1111-1111-1111-111111111111'' (Some 7) = Inr r \<and>
       ov_tasks r = [] \<and>
       task_count (ov_stats r) = 0 \<and> completed_count (ov_stats r) = 0 \<and>
       total_task_count (ov_stats r) = 0 \<and> total_completed_count (ov_stats r) = 0 \<and>
       percentages r = (0, 0, 0)) \<and>
   (\<exists>r. get_project_overview example_recent (Some example_pool)
          ''11111111-1111-1111-1111-111111111111'' (Some 7) = Inr r \<and>
       task_count (ov_stats r) = 1 \<and> completed_count (ov_stats r) = 0 \<and>
       total_task_count (ov_stats r) = 2 \<and> total_completed_count (ov_stats r) = 1 \<and>
       percentages r = (50, 80, 0))"
  by (intro conjI example_text_project example_percentages(1,2,3)
      example_text_window_overview example_counts)

text \<open>
  C4 fails on the code. The feature and the direct task below refer to the project by the
  hyphenated text of its identifier, which the three-form match of the other endpoints
  accepts; the overview compares the stored reference with the sixteen bytes only, finds
  no feature and no task, and reports 0 for every count and percentage, where the same
  project with binary references has one feature, two tasks and the percentages 50, 80, 0.
\<close>

theorem overview_text_references_missed:
  "map (\<lambda>f. match_uuid (col f ''project_id'') ''11111111-1111-1111-1111-111111111111'')
     (features example_db_text) = [Some True] \<and>
   map (\<lambda>t. match_uuid (col t ''project_id'') ''11111111-1111-1111-1111-111111111111'')
     (tasks example_db_text) = [None, Some True] \<and>
   (\<exists>r. get_project_overview example_recent (Some example_pool_text)
          ''11111111-1111-1111-1111-111111111111'' None = Inr r \<and>
       ov_features r = [] \<and> ov_tasks r = [] \<and>
       feature_count (ov_stats r) = 0 \<and> task_count (ov_stats r) = 0 \<and>
       total_task_count (ov_stats r) = 0 \<and> total_completed_count (ov_stats r) = 0 \<and>
       percentages r = (0, 0, 0))"
proof -
  from example_text_overview obtain r where
    r: "get_project_overview example_recent (Some example_pool_text)
          ''11111111-1111-1111-1111-111111111111'' None = Inr r"
    and e: "ov_features r = []" "ov_tasks r = []"
       "task_completion_percentage (ov_stats r) = 0"
       "complexity_completion_percentage (ov_stats r) = 0"
       "feature_completion_percentage (ov_stats r) = 0" by blast
  have d: "db example_pool_text = example_db_text" by (simp add: example_pool_text_def)
  from r obtain project_row tc cc where
    "feature_count (ov_stats r) = int (length (ov_features r))"
    "task_count (ov_stats r) = int (length (ov_tasks r))"
    "total_task_count (ov_stats r) = overview_total_task_count (db example_pool_text)
        (bytes_param (fst (uuid_params ''11111111-1111-1111-1111-111111111111'')))"
    "total_completed_count (ov_stats r) = overview_total_completed_count (db example_pool_text)
        (bytes_param (fst (uuid_params ''11111111-1111-1111-1111-111111111111'')))"
    by (rule get_project_overview_Inr)
  then have "feature_count (ov_stats r) = 0" "task_count (ov_stats r) = 0"
    "total_task_count (ov_stats r) = 0" "total_completed_count (ov_stats r) = 0"
    unfolding d example_uuid example_text_totals e by simp_all
  with r e have "\<exists>r. get_project_overview example_recent (Some example_pool_text)
          ''11111111-1111-1111-1111-111111111111'' None = Inr r \<and>
       ov_features r = [] \<and> ov_tasks r = [] \<and>
       feature_count (ov_stats r) = 0 \<and> task_count (ov_stats r) = 0 \<and>
       total_task_count (ov_stats r) = 0 \<and> total_completed_count (ov_stats r) = 0 \<and>
       percentages r = (0, 0, 0)"
    by (auto simp: percentages_def)
  with example_text_match show ?thesis by (intro conjI)
qed

end
